theory Spec2Isabelle
  imports Complex_Main "HOL-Library.AList"
begin

section \<open>JavaScript values used by the client\<close>

text \<open>
  The client of \<^verbatim>\<open>game.js\<close> keeps its state in plain JavaScript objects that it
  receives from \<^verbatim>\<open>JSON.parse\<close>. A number that is known to be one is a real (every
  number the client computes is a sum, difference or half of numbers it was given); where
  the code computes with a value that may be undefined, the result may be the
  not-a-number value. A property of a message that may be missing is an option, and
  \<open>None\<close> is \<^verbatim>\<open>undefined\<close>. Strings are \<open>string\<close>.
\<close>

type_synonym number = real

datatype jsnumber = Num number | NaN

definition ToNumber :: "number option \<Rightarrow> jsnumber" where
  "ToNumber v = (case v of None \<Rightarrow> NaN | Some r \<Rightarrow> Num r)"

definition ToString :: "string option \<Rightarrow> string" where
  "ToString v = (case v of None \<Rightarrow> ''undefined'' | Some s \<Rightarrow> s)"

fun js_minus :: "jsnumber \<Rightarrow> jsnumber \<Rightarrow> jsnumber" where
  "js_minus (Num a) (Num b) = Num (a - b)"
| "js_minus a b = NaN"

fun Math_min :: "jsnumber \<Rightarrow> jsnumber \<Rightarrow> jsnumber" where
  "Math_min (Num a) (Num b) = Num (min a b)"
| "Math_min a b = NaN"

fun Math_max :: "jsnumber \<Rightarrow> jsnumber \<Rightarrow> jsnumber" where
  "Math_max (Num a) (Num b) = Num (max a b)"
| "Math_max a b = NaN"

text \<open>
  An object as \<^verbatim>\<open>JSON.parse\<close> gives it: its own properties in creation order. Every
  key of the text is an own property of it, also the key \<^verbatim>\<open>__proto__\<close>.
\<close>

type_synonym 'v object = "(string \<times> 'v) list"

text \<open>
  Enumeration order of own properties (\<^verbatim>\<open>for ... in\<close>, \<^verbatim>\<open>Object.assign\<close>): keys
  that are array indices first, in ascending numeric order, then the other keys in
  creation order.
\<close>

definition is_digit :: "char \<Rightarrow> bool" where
  "is_digit c = (48 \<le> (of_char c :: int) \<and> (of_char c :: int) \<le> 57)"

definition array_index :: "string \<Rightarrow> int option" where
  "array_index s =
     (if s = [] then None
      else if list_all is_digit s then
        (if s = ''0'' then Some 0
         else if hd s = CHR ''0'' then None
         else (let n = foldl (\<lambda>a c. 10 * a + (of_char c - 48)) (0::int) s
               in if n < 2 ^ 32 - 1 then Some n else None))
      else None)"

definition index_of :: "string \<Rightarrow> int" where
  "index_of k = (case array_index k of Some n \<Rightarrow> n | None \<Rightarrow> 0)"

definition for_in :: "'v object \<Rightarrow> (string \<times> 'v) list" where
  "for_in obj =
     sort_key (\<lambda>kv. index_of (fst kv)) (filter (\<lambda>kv. array_index (fst kv) \<noteq> None) obj)
     @ filter (\<lambda>kv. array_index (fst kv) = None) obj"

text \<open>A JavaScript array with holes; reading outside it, or a hole, gives undefined.\<close>

definition array_get :: "'a option list \<Rightarrow> int \<Rightarrow> 'a option" where
  "array_get arr i = (if 0 \<le> i \<and> nat i < length arr then arr ! nat i else None)"

definition array_set :: "'a option list \<Rightarrow> nat \<Rightarrow> 'a \<Rightarrow> 'a option list" where
  "array_set arr i v =
     (if i < length arr then arr[i := Some v]
      else arr @ replicate (i - length arr) None @ [Some v])"

section \<open>Objects used as dictionaries\<close>

text \<open>
  The client keeps its players and its avatars in ordinary objects and reads and writes
  them with \<^verbatim>\<open>obj[k]\<close>. Such an object has its own properties and a prototype: the
  prototype is \<^verbatim>\<open>Object.prototype\<close> (\<open>None\<close>) until an assignment to the key
  \<^verbatim>\<open>__proto__\<close> replaces it by the assigned value. Every value the client stores is
  an object, so the assignment always replaces it.
\<close>

record 'v dictionary =
  own :: "'v object"
  proto :: "'v option"

definition from_JSON :: "'v object \<Rightarrow> 'v dictionary" where
  "from_JSON obj = \<lparr>own = obj, proto = None\<rparr>"

definition Object_prototype :: "string list" where
  "Object_prototype =
     [''constructor'', ''__defineGetter__'', ''__defineSetter__'', ''hasOwnProperty'',
      ''__lookupGetter__'', ''__lookupSetter__'', ''isPrototypeOf'', ''propertyIsEnumerable'',
      ''toString'', ''valueOf'', ''__proto__'', ''toLocaleString'']"

text \<open>
  What \<^verbatim>\<open>obj[k]\<close> gives: undefined, a value of the kind the object stores (an own
  property, or the prototype itself under the key \<^verbatim>\<open>__proto__\<close>), or some other
  value, inherited: a property of the prototype value or a member of
  \<^verbatim>\<open>Object.prototype\<close>. Of the other values only the truthiness matters: none of
  them has any of the properties the client reads from a player or an avatar.
  The parameter \<open>members\<close> lists the properties of a stored value with their truthiness.
\<close>

datatype 'v property = Undefined | Value 'v | Other bool

definition truthy :: "'v property \<Rightarrow> bool" where
  "truthy p = (case p of Undefined \<Rightarrow> False | Value v \<Rightarrow> True | Other t \<Rightarrow> t)"

definition get_property ::
  "('v \<Rightarrow> (string \<times> bool) list) \<Rightarrow> 'v dictionary \<Rightarrow> string \<Rightarrow> 'v property" where
  "get_property members d k =
     (case map_of (own d) k of
        Some v \<Rightarrow> Value v
      | None \<Rightarrow>
          (case proto d of
             None \<Rightarrow> if k \<in> set Object_prototype then Other True else Undefined
           | Some p \<Rightarrow>
               if k = ''__proto__'' then Value p
               else
                 (case map_of (members p) k of
                    Some t \<Rightarrow> Other t
                  | None \<Rightarrow> if k \<in> set Object_prototype then Other True else Undefined)))"

text \<open>
  \<^verbatim>\<open>obj[k] = v\<close>: an own property keeps its place and takes the value; the key
  \<^verbatim>\<open>__proto__\<close>, when it is not an own property, reaches the setter of
  \<^verbatim>\<open>Object.prototype\<close>, which makes \<open>v\<close> the prototype and adds no property; any
  other key becomes a new own property, the last one.
\<close>

definition set_property :: "string \<Rightarrow> 'v \<Rightarrow> 'v dictionary \<Rightarrow> 'v dictionary" where
  "set_property k v d =
     (case map_of (own d) k of
        Some u \<Rightarrow> d\<lparr>own := AList.update k v (own d)\<rparr>
      | None \<Rightarrow>
          if k = ''__proto__'' then d\<lparr>proto := Some v\<rparr>
          else d\<lparr>own := own d @ [(k, v)]\<rparr>)"

text \<open>\<^verbatim>\<open>delete obj[k]\<close> removes an own property and nothing else.\<close>

definition delete_property :: "string \<Rightarrow> 'v dictionary \<Rightarrow> 'v dictionary" where
  "delete_property k d = d\<lparr>own := AList.delete k (own d)\<rparr>"

text \<open>
  \<^verbatim>\<open>Object.assign(target, source)\<close> assigns \<^verbatim>\<open>target[k] = source[k]\<close> for the own
  properties of the source, in their enumeration order.
\<close>

definition Object_assign :: "'v dictionary \<Rightarrow> 'v object \<Rightarrow> 'v dictionary" where
  "Object_assign target source =
     fold (\<lambda>kv t. set_property (fst kv) (snd kv) t) (for_in source) target"

text \<open>A loop whose body may raise an exception: the first exception ends it.\<close>

fun for_each ::
  "('a \<Rightarrow> 's \<Rightarrow> 's \<times> string option) \<Rightarrow> 'a list \<Rightarrow> 's \<Rightarrow> 's \<times> string option" where
  "for_each body [] s = (s, None)"
| "for_each body (x # xs) s =
     (case body x s of
        (s', Some e) \<Rightarrow> (s', Some e)
      | (s', None) \<Rightarrow> for_each body xs s')"

section \<open>Images and the drawing context\<close>

datatype load_state = Loading | Loaded | Broken

record image =
  src :: string
  status :: load_state

text \<open>
  The 2D context: the current drawing state, the stack of \<^verbatim>\<open>save\<close>, and the calls
  made so far, each with the drawing state in force. The transform is the matrix
  \<open>a b c d e f\<close> of the canvas API: a point \<open>(u, v)\<close> of user space is painted at
  \<open>(a u + c v + e, b u + d v + f)\<close>.
\<close>

datatype matrix = Matrix number number number number number number

definition identity :: matrix where
  "identity = Matrix 1 0 0 1 0 0"

fun scale_matrix :: "number \<Rightarrow> number \<Rightarrow> matrix \<Rightarrow> matrix" where
  "scale_matrix sx sy (Matrix a b c d e f) = Matrix (a * sx) (b * sx) (c * sy) (d * sy) e f"

fun apply_matrix :: "matrix \<Rightarrow> number \<times> number \<Rightarrow> number \<times> number" where
  "apply_matrix (Matrix a b c d e f) (u, v) = (a * u + c * v + e, b * u + d * v + f)"

record drawing_state =
  transform :: matrix
  fillStyle :: string
  strokeStyle :: string
  lineWidth :: number
  font :: string
  textAlign :: string

definition default_drawing_state :: drawing_state where
  "default_drawing_state =
     \<lparr>transform = identity, fillStyle = ''#000000'', strokeStyle = ''#000000'',
      lineWidth = 1, font = ''10px sans-serif'', textAlign = ''start''\<rparr>"

datatype canvas_call =
    ClearRect number number number number
  | DrawImage image number number number number
  | DrawImageSub image jsnumber jsnumber number number number number number number
  | StrokeText string number number
  | FillText string number number

record context2d =
  current :: drawing_state
  saved :: "drawing_state list"
  calls :: "(canvas_call \<times> drawing_state) list"

definition new_context :: context2d where
  "new_context = \<lparr>current = default_drawing_state, saved = [], calls = []\<rparr>"

definition ctx_call :: "canvas_call \<Rightarrow> context2d \<Rightarrow> context2d" where
  "ctx_call k c = c\<lparr>calls := calls c @ [(k, current c)]\<rparr>"

definition ctx_save :: "context2d \<Rightarrow> context2d" where
  "ctx_save c = c\<lparr>saved := current c # saved c\<rparr>"

definition ctx_restore :: "context2d \<Rightarrow> context2d" where
  "ctx_restore c = (case saved c of [] \<Rightarrow> c | s # ss \<Rightarrow> c\<lparr>current := s, saved := ss\<rparr>)"

definition ctx_scale :: "number \<Rightarrow> number \<Rightarrow> context2d \<Rightarrow> context2d" where
  "ctx_scale sx sy c =
     c\<lparr>current := (current c)\<lparr>transform := scale_matrix sx sy (transform (current c))\<rparr>\<rparr>"

text \<open>
  Where a call of \<^verbatim>\<open>drawImage(img, dx, dy, dw, dh)\<close> paints the point of the image at
  relative position \<open>(s, t)\<close> (\<open>(0, 0)\<close> its top left corner, \<open>(1, 1)\<close> its bottom right
  one): in user space, and on the canvas.
\<close>

fun user_point :: "canvas_call \<Rightarrow> number \<times> number \<Rightarrow> number \<times> number" where
  "user_point (DrawImage img dx dy dw dh) (s, t) = (dx + s * dw, dy + t * dh)"
| "user_point (DrawImageSub img sx sy sw sh dx dy dw dh) (s, t) = (dx + s * dw, dy + t * dh)"
| "user_point k (s, t) = (0, 0)"

definition canvas_point ::
  "canvas_call \<times> drawing_state \<Rightarrow> number \<times> number \<Rightarrow> number \<times> number" where
  "canvas_point kd st = apply_matrix (transform (snd kd)) (user_point (fst kd) st)"

text \<open>The bounding box (left, top, right, bottom) of the image on the canvas.\<close>

definition bounding_box ::
  "canvas_call \<times> drawing_state \<Rightarrow> number \<times> number \<times> number \<times> number" where
  "bounding_box kd =
     (let ps = map (canvas_point kd) [(0, 0), (1, 0), (0, 1), (1, 1)];
          xs = map fst ps; ys = map snd ps
      in (fold min xs (hd xs), fold min ys (hd ys), fold max xs (hd xs), fold max ys (hd ys)))"

definition reflect_about :: "number \<Rightarrow> number \<times> number \<Rightarrow> number \<times> number" where
  "reflect_about x p = (2 * x - fst p, snd p)"

section \<open>Avatar\<close>

record avatarData =
  name :: string
  frames :: "string list object"

record Avatar = avatarData +
  loadedImages :: "image option list object"

text \<open>
  The constructor with \<^verbatim>\<open>loadImages\<close>: every direction gets an empty array; the
  images arrive later, one \<^verbatim>\<open>onload\<close> each. \<^verbatim>\<open>loadedImages\<close> is only ever read
  as \<^verbatim>\<open>loadedImages[direction]?.[animationFrame]\<close>, and what it inherits has no image
  at any index: for this reading it is the list of the arrays the constructor stored.
\<close>

definition new_Avatar :: "avatarData \<Rightarrow> Avatar" where
  "new_Avatar avatarData =
     \<lparr>name = name avatarData, frames = frames avatarData,
      loadedImages = fold (\<lambda>kv li. AList.update (fst kv) [] li) (for_in (frames avatarData)) []\<rparr>"

definition img_onload :: "Avatar \<Rightarrow> string \<Rightarrow> nat \<Rightarrow> Avatar" where
  "img_onload av direction index =
     (case (map_of (frames av) direction, map_of (loadedImages av) direction) of
        (Some base64, Some arr) \<Rightarrow>
          if index < length base64
          then av\<lparr>loadedImages :=
                 AList.update direction
                   (array_set arr index \<lparr>src = base64 ! index, status = Loaded\<rparr>)
                   (loadedImages av)\<rparr>
          else av
      | _ \<Rightarrow> av)"

definition loaded_frame :: "Avatar \<Rightarrow> string \<Rightarrow> int \<Rightarrow> image option" where
  "loaded_frame av direction animationFrame =
     (case map_of (loadedImages av) direction of
        None \<Rightarrow> None
      | Some arr \<Rightarrow> array_get arr animationFrame)"

definition draw ::
  "Avatar \<Rightarrow> context2d \<Rightarrow> number \<Rightarrow> number \<Rightarrow> string \<Rightarrow> int \<Rightarrow> bool \<Rightarrow> context2d" where
  "draw av c x y facing animationFrame isWest =
     (let direction = (if isWest then ''east'' else facing) in
      case loaded_frame av direction animationFrame of
        None \<Rightarrow> c
      | Some frame \<Rightarrow>
          (let avatarSize = 32;
               c1 = ctx_save c;
               c2 = (if isWest
                     then ctx_call (DrawImage frame (- x - avatarSize / 2) (y - avatarSize / 2)
                                      avatarSize avatarSize)
                            (ctx_scale (- 1) 1 c1)
                     else ctx_call (DrawImage frame (x - avatarSize / 2) (y - avatarSize / 2)
                                      avatarSize avatarSize) c1)
           in ctx_restore c2))"

section \<open>GameClient\<close>

text \<open>
  A player as a message gives it: an object with some of the properties the client
  reads. The client stores it as it comes, and reads a missing property as undefined.
\<close>

record Player =
  player_id :: "string option"
  username :: "string option"
  player_x :: "number option"
  player_y :: "number option"
  facing :: "string option"
  animationFrame :: "int option"
  avatar :: "string option"

text \<open>
  The properties of a player and of an avatar, with their truthiness: what
  \<^verbatim>\<open>obj[k]\<close> finds when the value is the prototype of \<open>obj\<close>. All properties of a
  player are enumerable. An avatar also has the methods of its class.
\<close>

definition present :: "string \<Rightarrow> 'a option \<Rightarrow> ('a \<Rightarrow> bool) \<Rightarrow> (string \<times> bool) list" where
  "present k v t = (case v of None \<Rightarrow> [] | Some a \<Rightarrow> [(k, t a)])"

definition Player_members :: "Player \<Rightarrow> (string \<times> bool) list" where
  "Player_members p =
     present ''id'' (player_id p) (\<lambda>s. s \<noteq> []) @
     present ''username'' (username p) (\<lambda>s. s \<noteq> []) @
     present ''x'' (player_x p) (\<lambda>r. r \<noteq> 0) @
     present ''y'' (player_y p) (\<lambda>r. r \<noteq> 0) @
     present ''facing'' (facing p) (\<lambda>s. s \<noteq> []) @
     present ''animationFrame'' (animationFrame p) (\<lambda>i. i \<noteq> 0) @
     present ''avatar'' (avatar p) (\<lambda>s. s \<noteq> [])"

definition Avatar_members :: "Avatar \<Rightarrow> (string \<times> bool) list" where
  "Avatar_members av =
     [(''name'', name av \<noteq> []), (''frames'', True), (''loadedImages'', True),
      (''constructor'', True), (''loadImages'', True), (''draw'', True)]"

datatype console_entry = ConsoleLog "string list" | ConsoleError "string list"

datatype message =
    JoinGame bool string "Player object" "avatarData object" string
  | PlayerJoined Player "avatarData option"
  | PlayersMoved "Player object"
  | PlayerLeft string
  | OtherAction string

text \<open>
  The state: the fields of the client, the console, the messages sent, and the avatars
  constructed so far, each as the constructor returned it (constructing an avatar starts
  the loading of its images, whether or not the avatar is stored afterwards).
\<close>

record GameClient =
  canvas_width :: number
  canvas_height :: number
  ctx :: context2d
  worldImage :: "image option"
  worldWidth :: number
  worldHeight :: number
  playerId :: "string option"
  players :: "Player dictionary"
  avatars :: "Avatar dictionary"
  viewportX :: jsnumber
  viewportY :: jsnumber
  console :: "console_entry list"
  sent :: "(string \<times> string) list list"
  constructed :: "Avatar list"

definition console_log :: "string list \<Rightarrow> GameClient \<Rightarrow> GameClient" where
  "console_log args st = st\<lparr>console := console st @ [ConsoleLog args]\<rparr>"

definition console_error :: "string list \<Rightarrow> GameClient \<Rightarrow> GameClient" where
  "console_error args st = st\<lparr>console := console st @ [ConsoleError args]\<rparr>"

text \<open>
  The coordinates of what \<^verbatim>\<open>this.players[k]\<close> gave: those of a player, undefined
  when it has none or when the value is no player.
\<close>

definition x_of :: "Player property \<Rightarrow> number option" where
  "x_of v = (case v of Value p \<Rightarrow> player_x p | Undefined \<Rightarrow> None | Other t \<Rightarrow> None)"

definition y_of :: "Player property \<Rightarrow> number option" where
  "y_of v = (case v of Value p \<Rightarrow> player_y p | Undefined \<Rightarrow> None | Other t \<Rightarrow> None)"

text \<open>
  \<^verbatim>\<open>!this.playerId\<close> holds of null and of the empty string;
  \<^verbatim>\<open>!this.players[this.playerId]\<close> holds when the lookup gives undefined or a falsy
  value. An undefined coordinate makes the difference, and so the minimum and the
  maximum, not a number.
\<close>

definition updateViewport :: "GameClient \<Rightarrow> GameClient" where
  "updateViewport st =
     (case playerId st of
        None \<Rightarrow> st
      | Some k \<Rightarrow>
          if k = [] then st
          else
            (let player = get_property Player_members (players st) k in
             if truthy player then
               (let centerX = ToNumber (x_of player);
                    centerY = ToNumber (y_of player)
                in st\<lparr>viewportX :=
                         Math_max (Num 0)
                           (Math_min (Num (worldWidth st - canvas_width st))
                              (js_minus centerX (Num (canvas_width st / 2)))),
                       viewportY :=
                         Math_max (Num 0)
                           (Math_min (Num (worldHeight st - canvas_height st))
                              (js_minus centerY (Num (canvas_height st / 2))))\<rparr>)
             else st))"

definition worldToCanvas :: "GameClient \<Rightarrow> jsnumber \<Rightarrow> jsnumber \<Rightarrow> jsnumber \<times> jsnumber" where
  "worldToCanvas st worldX worldY = (js_minus worldX (viewportX st), js_minus worldY (viewportY st))"

text \<open>
  \<^verbatim>\<open>drawPlayer\<close> returns the context and the exception it ends with, if any: when
  \<^verbatim>\<open>this.avatars[player.avatar]\<close> is truthy and no avatar, it has no method
  \<^verbatim>\<open>draw\<close> and the call raises \<^verbatim>\<open>TypeError\<close>. An undefined frame index is no index
  of any array, so that \<^verbatim>\<open>draw\<close> returns at once.
\<close>

definition drawPlayer ::
  "GameClient \<Rightarrow> Player \<Rightarrow> number \<Rightarrow> number \<Rightarrow> context2d \<Rightarrow> context2d \<times> string option" where
  "drawPlayer st player x y c =
     (case get_property Avatar_members (avatars st) (ToString (avatar player)) of
        Undefined \<Rightarrow> (c, None)
      | Other t \<Rightarrow> if t then (c, Some ''TypeError'') else (c, None)
      | Value av \<Rightarrow>
          (let isWest = (facing player = Some ''west'');
               c1 = (case animationFrame player of
                       None \<Rightarrow> c
                     | Some i \<Rightarrow> draw av c x y (ToString (facing player)) i isWest);
               c2 = ctx_save c1;
               c3 = c2\<lparr>current := (current c2)
                        \<lparr>fillStyle := ''white'', strokeStyle := ''black'', lineWidth := 2,
                         font := ''12px Arial'', textAlign := ''center''\<rparr>\<rparr>;
               labelY = y - 25;
               c4 = ctx_call (StrokeText (ToString (username player)) x labelY) c3;
               c5 = ctx_call (FillText (ToString (username player)) x labelY) c4
           in (ctx_restore c5, None)))"

text \<open>
  The test of the loop of \<^verbatim>\<open>render\<close>: the canvas position of the player when it is
  within 50 of the canvas. A comparison with not-a-number is false.
\<close>

definition in_view :: "GameClient \<Rightarrow> Player \<Rightarrow> (number \<times> number) option" where
  "in_view st player =
     (case worldToCanvas st (ToNumber (player_x player)) (ToNumber (player_y player)) of
        (Num x, Num y) \<Rightarrow>
          if x \<ge> - 50 \<and> x \<le> canvas_width st + 50 \<and> y \<ge> - 50 \<and> y \<le> canvas_height st + 50
          then Some (x, y) else None
      | (Num x, NaN) \<Rightarrow> None
      | (NaN, y) \<Rightarrow> None)"

text \<open>
  The body of the loop, for the value \<^verbatim>\<open>this.players[playerId]\<close> of a visited key:
  a value that is no player has no coordinates and fails the test.
\<close>

definition render_player ::
  "GameClient \<Rightarrow> Player property \<Rightarrow> context2d \<Rightarrow> context2d \<times> string option" where
  "render_player st v c =
     (case v of
        Undefined \<Rightarrow> (c, Some ''TypeError'')
      | Other t \<Rightarrow> (c, None)
      | Value player \<Rightarrow>
          (case in_view st player of
             None \<Rightarrow> (c, None)
           | Some canvasPos \<Rightarrow> drawPlayer st player (fst canvasPos) (snd canvasPos) c))"

text \<open>
  The keys \<^verbatim>\<open>for (const playerId in this.players)\<close> visits: the own ones, then the
  properties of the prototype player that no own property hides
  (\<^verbatim>\<open>Object.prototype\<close> has no enumerable property), each with
  \<^verbatim>\<open>this.players[playerId]\<close>.
\<close>

definition enumerated_keys :: "Player dictionary \<Rightarrow> string list" where
  "enumerated_keys d =
     map fst (for_in (own d)) @
     (case proto d of
        None \<Rightarrow> []
      | Some p \<Rightarrow> filter (\<lambda>k. map_of (own d) k = None) (map fst (Player_members p)))"

definition visited_players :: "GameClient \<Rightarrow> (string \<times> Player property) list" where
  "visited_players st =
     map (\<lambda>k. (k, get_property Player_members (players st) k)) (enumerated_keys (players st))"


text \<open>
  \<^verbatim>\<open>render\<close> returns the state and the exception it ends with, if any:
  \<^verbatim>\<open>drawImage\<close> raises \<^verbatim>\<open>InvalidStateError\<close> on an image whose loading failed
  (and paints nothing, silently, on one that is still loading, or from a rectangle that
  is not a number).
\<close>

definition render :: "GameClient \<Rightarrow> GameClient \<times> string option" where
  "render st =
     (case worldImage st of
        None \<Rightarrow> (st, None)
      | Some img \<Rightarrow>
          (let c0 = ctx_call (ClearRect 0 0 (canvas_width st) (canvas_height st)) (ctx st) in
           if status img = Broken then (st\<lparr>ctx := c0\<rparr>, Some ''InvalidStateError'')
           else
             (let c1 = ctx_call
                         (DrawImageSub img (viewportX st) (viewportY st)
                            (canvas_width st) (canvas_height st)
                            0 0 (canvas_width st) (canvas_height st)) c0;
                  r = for_each (\<lambda>kv c. render_player st (snd kv) c) (visited_players st) c1
              in (st\<lparr>ctx := fst r\<rparr>, snd r))))"

text \<open>\<^verbatim>\<open>this.avatars[k] = new Avatar(avatarData)\<close>.\<close>

definition store_new_Avatar :: "string \<Rightarrow> avatarData \<Rightarrow> GameClient \<Rightarrow> GameClient" where
  "store_new_Avatar k avatarData st =
     (let av = new_Avatar avatarData
      in st\<lparr>constructed := constructed st @ [av],
            avatars := set_property k av (avatars st)\<rparr>)"

definition handleMessage :: "GameClient \<Rightarrow> message \<Rightarrow> GameClient \<times> string option" where
  "handleMessage st message =
     (case message of
        JoinGame success pid ps avs err \<Rightarrow>
          if success then
            (let st1 = st\<lparr>playerId := Some pid, players := from_JSON ps, avatars := from_JSON []\<rparr>;
                 st2 = fold (\<lambda>kv s. store_new_Avatar (fst kv) (snd kv) s) (for_in avs) st1;
                 r = render (updateViewport st2)
             in case snd r of
                  Some e \<Rightarrow> r
                | None \<Rightarrow>
                    (console_log [''Joined game successfully, player ID:'', pid] (fst r), None))
          else (console_error [''Failed to join game:'', err] st, None)
      | PlayerJoined player av \<Rightarrow>
          (let st1 = st\<lparr>players :=
                          set_property (ToString (player_id player)) player (players st)\<rparr>;
               st2 = (case av of
                        None \<Rightarrow> st1
                      | Some a \<Rightarrow> store_new_Avatar (name a) a st1)
           in render st2)
      | PlayersMoved ps \<Rightarrow>
          render (updateViewport (st\<lparr>players := Object_assign (players st) ps\<rparr>))
      | PlayerLeft pid \<Rightarrow>
          render (st\<lparr>players := delete_property pid (players st)\<rparr>)
      | OtherAction a \<Rightarrow> (st, None))"

text \<open>
  The handlers of the socket. \<^verbatim>\<open>JSON.parse\<close> is the platform's: it is a parameter,
  giving the message or the text of its \<^verbatim>\<open>SyntaxError\<close>. The \<^verbatim>\<open>try\<close> catches what
  the parser raises and what \<^verbatim>\<open>handleMessage\<close> raises, and logs both the same way.
\<close>

definition joinGame :: "GameClient \<Rightarrow> GameClient" where
  "joinGame st =
     st\<lparr>sent := sent st @ [[(''action'', ''join_game''), (''username'', ''Olutobi'')]]\<rparr>"

definition ws_onopen :: "GameClient \<Rightarrow> GameClient" where
  "ws_onopen st = joinGame (console_log [''Connected to game server''] st)"

definition ws_onmessage ::
  "(string \<Rightarrow> string + message) \<Rightarrow> GameClient \<Rightarrow> string \<Rightarrow> GameClient" where
  "ws_onmessage JSON_parse st data =
     (case JSON_parse data of
        Inl error \<Rightarrow> console_error [''Error parsing message:'', error] st
      | Inr message \<Rightarrow>
          (case handleMessage st message of
             (st', Some error) \<Rightarrow> console_error [''Error parsing message:'', error] st'
           | (st', None) \<Rightarrow> st'))"

definition ws_onclose :: "GameClient \<Rightarrow> GameClient" where
  "ws_onclose st = console_log [''Disconnected from game server''] st"

definition ws_onerror :: "string \<Rightarrow> GameClient \<Rightarrow> GameClient" where
  "ws_onerror error st = console_error [''WebSocket error:'', error] st"

text \<open>
  The constructor: the fields, then \<^verbatim>\<open>init\<close>. \<^verbatim>\<open>loadWorldMap\<close> stores the image
  object at once, before anything of it is loaded; its \<^verbatim>\<open>onload\<close> and \<^verbatim>\<open>onerror\<close>
  come later. Assigning the width of a canvas also puts its context back into the
  default drawing state.
\<close>

definition setupCanvas :: "number \<Rightarrow> number \<Rightarrow> GameClient \<Rightarrow> GameClient" where
  "setupCanvas innerWidth innerHeight st =
     st\<lparr>canvas_width := innerWidth, canvas_height := innerHeight,
        ctx := (ctx st)\<lparr>current := default_drawing_state, saved := []\<rparr>\<rparr>"

definition loadWorldMap :: "GameClient \<Rightarrow> GameClient" where
  "loadWorldMap st = st\<lparr>worldImage := Some \<lparr>src = ''world.jpg'', status = Loading\<rparr>\<rparr>"

definition new_GameClient :: "number \<Rightarrow> number \<Rightarrow> GameClient" where
  "new_GameClient innerWidth innerHeight =
     loadWorldMap (setupCanvas innerWidth innerHeight
       \<lparr>canvas_width = 300, canvas_height = 150, ctx = new_context, worldImage = None,
        worldWidth = 2048, worldHeight = 2048, playerId = None, players = from_JSON [],
        avatars = from_JSON [], viewportX = Num 0, viewportY = Num 0, console = [], sent = [],
        constructed = []\<rparr>)"

definition worldImage_onload :: "GameClient \<Rightarrow> GameClient \<times> string option" where
  "worldImage_onload st =
     render (st\<lparr>worldImage := map_option (\<lambda>img. img\<lparr>status := Loaded\<rparr>) (worldImage st)\<rparr>)"

definition worldImage_onerror :: "GameClient \<Rightarrow> GameClient" where
  "worldImage_onerror st =
     console_error [''Failed to load world map image'']
       (st\<lparr>worldImage := map_option (\<lambda>img. img\<lparr>status := Broken\<rparr>) (worldImage st)\<rparr>)"

definition window_onresize :: "number \<Rightarrow> number \<Rightarrow> GameClient \<Rightarrow> GameClient \<times> string option" where
  "window_onresize innerWidth innerHeight st =
     render (updateViewport (setupCanvas innerWidth innerHeight st))"

text \<open>The clamp of the specification, in its words.\<close>

definition clamp :: "number \<Rightarrow> number \<Rightarrow> number \<Rightarrow> number" where
  "clamp v lo hi = (if v < lo then lo else if hi < v then hi else v)"

section \<open>The states of the client\<close>

text \<open>
  The client is created once; after that its state changes in the handlers of the socket,
  of the world image, of the window and of the images of the avatars, one event at a time.
\<close>

inductive reachable :: "GameClient \<Rightarrow> bool" where
  created: "reachable (new_GameClient innerWidth innerHeight)"
| opened: "reachable st \<Longrightarrow> reachable (ws_onopen st)"
| received: "reachable st \<Longrightarrow> reachable (ws_onmessage JSON_parse st data)"
| closed: "reachable st \<Longrightarrow> reachable (ws_onclose st)"
| socket_error: "reachable st \<Longrightarrow> reachable (ws_onerror e st)"
| world_loaded: "reachable st \<Longrightarrow> reachable (fst (worldImage_onload st))"
| world_failed: "reachable st \<Longrightarrow> reachable (worldImage_onerror st)"
| resized: "reachable st \<Longrightarrow> reachable (fst (window_onresize innerWidth innerHeight st))"
| frame_loaded:
    "reachable st \<Longrightarrow> map_of (own (avatars st)) k = Some av \<Longrightarrow>
     reachable (st\<lparr>avatars :=
       (avatars st)\<lparr>own := AList.update k (img_onload av d i) (own (avatars st))\<rparr>\<rparr>)"
| prototype_frame_loaded:
    "reachable st \<Longrightarrow> proto (avatars st) = Some av \<Longrightarrow>
     reachable (st\<lparr>avatars := (avatars st)\<lparr>proto := Some (img_onload av d i)\<rparr>\<rparr>)"

section \<open>Example data\<close>

definition example_player :: "string \<Rightarrow> number \<Rightarrow> number \<Rightarrow> Player" where
  "example_player k x y =
     \<lparr>player_id = Some k, username = Some ''Olutobi'', player_x = Some x, player_y = Some y,
      facing = Some ''south'', animationFrame = Some 0, avatar = Some ''a1''\<rparr>"

definition example_avatarData :: avatarData where
  "example_avatarData =
     \<lparr>name = ''a1'', frames = [(''east'', [''e0'', ''e1'']), (''south'', [''s0''])]\<rparr>"

definition example_avatar :: Avatar where
  "example_avatar = img_onload (new_Avatar example_avatarData) ''east'' 1"

definition example_join :: message where
  "example_join =
     JoinGame True ''p1'' [(''p1'', example_player ''p1'' 100 100)]
       [(''a1'', example_avatarData)] []"

definition example_state :: GameClient where
  "example_state =
     (new_GameClient 800 600)
       \<lparr>playerId := Some ''p1'',
        players := from_JSON
          [(''p1'', example_player ''p1'' 100 100), (''p2'', example_player ''p2'' 5 5)]\<rparr>"

definition example_moved :: "Player object" where
  "example_moved = [(''p1'', example_player ''p1'' 1900 50), (''p3'', example_player ''p3'' 7 7)]"

definition example_avatars :: "avatarData object" where
  "example_avatars = [(''a1'', example_avatarData), (''__proto__'', example_avatarData)]"

definition example_parse :: "string \<Rightarrow> string + message" where
  "example_parse data =
     (if data = ''moved'' then Inr (PlayersMoved example_moved)
      else Inl ''Unexpected token'')"

section \<open>Objects: enumeration and assignment\<close>

lemma set_for_in: "set (for_in obj) = set obj"
  by (auto simp: for_in_def)

lemma distinct_keys_for_in:
  assumes "distinct (map fst obj)"
  shows "distinct (map fst (for_in obj))"
proof -
  from assms have d: "distinct obj" and i: "inj_on fst (set obj)"
    by (simp_all add: distinct_map)
  have "distinct (for_in obj)"
    using d by (auto simp: for_in_def)
  moreover have "inj_on fst (set (for_in obj))"
    using i by (simp add: set_for_in)
  ultimately show ?thesis by (simp add: distinct_map)
qed

lemma map_of_for_in:
  assumes "distinct (map fst obj)"
  shows "map_of (for_in obj) = map_of obj"
  using assms distinct_keys_for_in [OF assms] set_for_in [of obj]
  by (simp add: map_of_inject_set)


lemma not_index:
  "array_index ''p1'' = None" "array_index ''p2'' = None" "array_index ''p3'' = None"
  "array_index ''a1'' = None" "array_index ''east'' = None" "array_index ''south'' = None"
  by (simp_all add: array_index_def is_digit_def)

lemma for_in_one: "array_index k = None \<Longrightarrow> for_in [(k, v)] = [(k, v)]"
  by (simp add: for_in_def)

lemma own_set_property:
  "map_of (own (set_property k v d)) k' =
     (if k' = k then (if k = ''__proto__'' \<and> map_of (own d) ''__proto__'' = None then None else Some v)
      else map_of (own d) k')"
  by (auto simp: set_property_def update_conv' map_add_def split: option.splits)

lemma proto_set_property:
  "proto (set_property k v d) =
     (if k = ''__proto__'' \<and> map_of (own d) ''__proto__'' = None then Some v else proto d)"
  by (simp add: set_property_def split: option.splits)

lemma set_property_same:
  "map_of (own d) k = Some v \<Longrightarrow> set_property k v d = d"
  "map_of (own d) ''__proto__'' = None \<Longrightarrow> proto d = Some v \<Longrightarrow> set_property ''__proto__'' v d = d"
  by (simp_all add: set_property_def update_triv)

lemma own_fold_set_property:
  "distinct (map fst xs) \<Longrightarrow>
   map_of (own (fold (\<lambda>kv t. set_property (fst kv) (g (snd kv)) t) xs d)) k =
     (if k = ''__proto__'' \<and> map_of (own d) ''__proto__'' = None then None
      else (case map_of xs k of Some v \<Rightarrow> Some (g v) | None \<Rightarrow> map_of (own d) k))"
proof (induction xs arbitrary: d)
  case Nil
  then show ?case by simp
next
  case (Cons a xs)
  have d: "distinct (map fst xs)" and n: "map_of xs (fst a) = None"
    using Cons.prems by (simp_all add: map_of_eq_None_iff)
  show ?case
    using n by (cases a) (auto simp: Cons.IH [OF d] own_set_property split: option.splits)
qed

lemma proto_fold_set_property:
  "distinct (map fst xs) \<Longrightarrow>
   proto (fold (\<lambda>kv t. set_property (fst kv) (g (snd kv)) t) xs d) =
     (if map_of (own d) ''__proto__'' = None
      then (case map_of xs ''__proto__'' of Some v \<Rightarrow> Some (g v) | None \<Rightarrow> proto d)
      else proto d)"
proof (induction xs arbitrary: d)
  case Nil
  then show ?case by simp
next
  case (Cons a xs)
  have d: "distinct (map fst xs)" and n: "map_of xs (fst a) = None"
    using Cons.prems by (simp_all add: map_of_eq_None_iff)
  show ?case
    using n
    by (cases a)
      (auto simp: Cons.IH [OF d] own_set_property proto_set_property split: option.splits)
qed

lemma fold_set_property_same:
  "\<forall>kv \<in> set xs. set_property (fst kv) (snd kv) d = d \<Longrightarrow>
   fold (\<lambda>kv t. set_property (fst kv) (snd kv) t) xs d = d"
  by (induction xs) simp_all

lemma own_Object_assign:
  assumes "distinct (map fst source)"
  shows "map_of (own (Object_assign target source)) k =
     (if k = ''__proto__'' \<and> map_of (own target) ''__proto__'' = None then None
      else (case map_of source k of Some v \<Rightarrow> Some v | None \<Rightarrow> map_of (own target) k))"
  using own_fold_set_property [OF distinct_keys_for_in [OF assms], of "\<lambda>v. v" target k]
  by (simp add: Object_assign_def map_of_for_in [OF assms])

lemma proto_Object_assign:
  assumes "distinct (map fst source)"
  shows "proto (Object_assign target source) =
     (if map_of (own target) ''__proto__'' = None
      then (case map_of source ''__proto__'' of Some v \<Rightarrow> Some v | None \<Rightarrow> proto target)
      else proto target)"
  using proto_fold_set_property [OF distinct_keys_for_in [OF assms], of "\<lambda>v. v" target]
  by (simp add: Object_assign_def map_of_for_in [OF assms])

lemma Object_assign_twice:
  assumes "distinct (map fst source)"
  shows "Object_assign (Object_assign target source) source = Object_assign target source"
proof -
  let ?t = "Object_assign target source"
  have "set_property (fst kv) (snd kv) ?t = ?t" if "kv \<in> set (for_in source)" for kv
  proof -
    from that have m: "map_of source (fst kv) = Some (snd kv)"
      using assms by (simp add: set_for_in)
    show ?thesis
    proof (cases "fst kv = ''__proto__'' \<and> map_of (own target) ''__proto__'' = None")
      case True
      then have k: "fst kv = ''__proto__''" and n: "map_of (own target) ''__proto__'' = None"
        by simp_all
      from m k have m': "map_of source ''__proto__'' = Some (snd kv)" by simp
      have "map_of (own ?t) ''__proto__'' = None"
        using n by (simp add: own_Object_assign [OF assms])
      moreover have "proto ?t = Some (snd kv)"
        using n m' by (simp add: proto_Object_assign [OF assms])
      ultimately show ?thesis
        using k set_property_same(2) [of ?t "snd kv"] by simp
    next
      case False
      then have "map_of (own ?t) (fst kv) = Some (snd kv)"
        using m by (auto simp: own_Object_assign [OF assms])
      then show ?thesis by (rule set_property_same(1))
    qed
  qed
  then show ?thesis
    using fold_set_property_same [of "for_in source" ?t]
    by (simp add: Object_assign_def [of ?t])
qed

lemma own_fold_set_property_fresh:
  "distinct (map fst xs) \<Longrightarrow> fst ` set xs \<inter> fst ` set (own d) = {} \<Longrightarrow>
   own (fold (\<lambda>kv t. set_property (fst kv) (g (snd kv)) t) xs d) =
     own d @ map (\<lambda>kv. (fst kv, g (snd kv))) (filter (\<lambda>kv. fst kv \<noteq> ''__proto__'') xs)"
proof (induction xs arbitrary: d)
  case Nil
  then show ?case by simp
next
  case (Cons a xs)
  have n: "map_of (own d) (fst a) = None"
    using Cons.prems by (auto simp: map_of_eq_None_iff)
  have o: "own (set_property (fst a) (g (snd a)) d) =
      (if fst a = ''__proto__'' then own d else own d @ [(fst a, g (snd a))])"
    using n by (simp add: set_property_def)
  have "fst ` set xs \<inter> fst ` set (own (set_property (fst a) (g (snd a)) d)) = {}"
    using Cons.prems by (auto simp: o)
  with Cons.IH [of "set_property (fst a) (g (snd a)) d"] Cons.prems show ?case
    by (simp add: o)
qed

section \<open>What the methods leave alone\<close>

lemma render_keeps:
  "players (fst (render st)) = players st"
  "playerId (fst (render st)) = playerId st"
  "avatars (fst (render st)) = avatars st"
  "viewportX (fst (render st)) = viewportX st"
  "viewportY (fst (render st)) = viewportY st"
  "canvas_width (fst (render st)) = canvas_width st"
  "canvas_height (fst (render st)) = canvas_height st"
  "worldWidth (fst (render st)) = worldWidth st"
  "worldHeight (fst (render st)) = worldHeight st"
  "constructed (fst (render st)) = constructed st"
  "console (fst (render st)) = console st"
  by (simp_all add: render_def Let_def split: option.splits)

lemma updateViewport_keeps:
  "players (updateViewport st) = players st"
  "playerId (updateViewport st) = playerId st"
  "avatars (updateViewport st) = avatars st"
  "canvas_width (updateViewport st) = canvas_width st"
  "canvas_height (updateViewport st) = canvas_height st"
  "worldWidth (updateViewport st) = worldWidth st"
  "worldHeight (updateViewport st) = worldHeight st"
  "constructed (updateViewport st) = constructed st"
  "console (updateViewport st) = console st"
  by (simp_all add: updateViewport_def Let_def split: option.splits)

lemma render_without_image: "worldImage st = None \<Longrightarrow> render st = (st, None)"
  by (simp add: render_def)

lemma updateViewport_absent:
  "playerId st = None \<or> playerId st = Some [] \<or>
   (\<exists>k. playerId st = Some k \<and> get_property Player_members (players st) k = Undefined) \<Longrightarrow>
   updateViewport st = st"
  by (auto simp: updateViewport_def truthy_def)

lemma fold_store_new_Avatar:
  "fold (\<lambda>kv s. store_new_Avatar (fst kv) (snd kv) s) xs st =
     st\<lparr>constructed := constructed st @ map (\<lambda>kv. new_Avatar (snd kv)) xs,
        avatars := fold (\<lambda>kv t. set_property (fst kv) (new_Avatar (snd kv)) t) xs (avatars st)\<rparr>"
  by (induction xs arbitrary: st) (simp_all add: store_new_Avatar_def Let_def)

lemma join_success_state:
  "fst (handleMessage st (JoinGame True pid ps avs err)) = s \<Longrightarrow>
   playerId s = Some pid \<and> players s = from_JSON ps \<and>
   avatars s =
     fold (\<lambda>kv t. set_property (fst kv) (new_Avatar (snd kv)) t) (for_in avs) (from_JSON []) \<and>
   constructed s = constructed st @ map (\<lambda>kv. new_Avatar (snd kv)) (for_in avs)"
  by (auto simp: handleMessage_def Let_def render_keeps updateViewport_keeps console_log_def
      fold_store_new_Avatar split: option.splits)





section \<open>The calls of \<^verbatim>\<open>Avatar.draw\<close>\<close>

lemma draw_absent:
  "loaded_frame av (if isWest then ''east'' else dir) i = None \<Longrightarrow>
   draw av c x y dir i isWest = c"
  by (simp add: draw_def)

lemma draw_mirrored:
  "loaded_frame av ''east'' i = Some frame \<Longrightarrow>
   draw av c x y dir i True =
     c\<lparr>calls := calls c @
        [(DrawImage frame (- x - 16) (y - 16) 32 32,
          (current c)\<lparr>transform := scale_matrix (- 1) 1 (transform (current c))\<rparr>)]\<rparr>"
  by (simp add: draw_def Let_def ctx_save_def ctx_scale_def ctx_call_def ctx_restore_def)

lemma draw_plain:
  "loaded_frame av dir i = Some frame \<Longrightarrow>
   draw av c x y dir i False =
     c\<lparr>calls := calls c @ [(DrawImage frame (x - 16) (y - 16) 32 32, current c)]\<rparr>"
  by (simp add: draw_def Let_def ctx_save_def ctx_call_def ctx_restore_def)

lemma box_plain:
  "transform d = identity \<Longrightarrow>
   bounding_box (DrawImage frame (x - 16) (y - 16) 32 32, d) = (x - 16, y - 16, x + 16, y + 16)"
  by (simp add: bounding_box_def canvas_point_def identity_def)

lemma box_mirrored:
  "transform d = identity \<Longrightarrow>
   bounding_box (DrawImage frame (- x - 16) (y - 16) 32 32,
                 d\<lparr>transform := scale_matrix (- 1) 1 (transform d)\<rparr>) =
     (x - 16, y - 16, x + 16, y + 16)"
  by (simp add: bounding_box_def canvas_point_def identity_def)

lemma point_mirrored:
  "transform d = identity \<Longrightarrow>
   canvas_point (DrawImage frame (- x - 16) (y - 16) 32 32,
                 d\<lparr>transform := scale_matrix (- 1) 1 (transform d)\<rparr>) (s, t) =
     reflect_about x (canvas_point (DrawImage frame (x - 16) (y - 16) 32 32, d) (s, t))"
  by (simp add: canvas_point_def identity_def reflect_about_def)

lemma loaded_frame_absent:
  "loaded_frame av d i = None \<longleftrightarrow>
     (case map_of (loadedImages av) d of
        None \<Rightarrow> True
      | Some arr \<Rightarrow> i < 0 \<or> int (length arr) \<le> i \<or> arr ! nat i = None)"
  by (auto simp: loaded_frame_def array_get_def split: option.splits)

text \<open>
  Every method gives the context back in the drawing state it found, so the client
  always draws in the state the context was created with: the identity transform.
\<close>

lemma draw_keeps_state:
  "current (draw av c x y d i w) = current c \<and> saved (draw av c x y d i w) = saved c"
proof (cases "loaded_frame av (if w then ''east'' else d) i")
  case None
  then show ?thesis by (simp add: draw_absent)
next
  case (Some frame)
  then show ?thesis
    by (cases w) (simp_all add: draw_mirrored draw_plain)
qed

lemma drawPlayer_keeps_state:
  "current (fst (drawPlayer st p x y c)) = current c \<and>
   saved (fst (drawPlayer st p x y c)) = saved c"
  by (simp add: drawPlayer_def Let_def ctx_save_def ctx_call_def ctx_restore_def
      draw_keeps_state split: option.splits property.splits)

lemma render_player_keeps_state:
  "current (fst (render_player st v c)) = current c \<and>
   saved (fst (render_player st v c)) = saved c"
  by (simp add: render_player_def drawPlayer_keeps_state split: option.splits property.splits)

lemma for_each_keeps_state:
  assumes "\<And>a c. current (fst (body a c)) = current c \<and> saved (fst (body a c)) = saved c"
  shows "current (fst (for_each body xs c)) = current (c :: context2d) \<and>
         saved (fst (for_each body xs c)) = saved c"
proof (induction xs arbitrary: c)
  case Nil
  show ?case by simp
next
  case (Cons a xs)
  obtain c' r where b: "body a c = (c', r)" by (cases "body a c")
  with assms [of a c] have k: "current c' = current c \<and> saved c' = saved c" by simp
  show ?case
    using Cons.IH [of c'] k by (cases r) (simp_all add: b)
qed

lemma render_keeps_state:
  "current (ctx (fst (render st))) = current (ctx st) \<and>
   saved (ctx (fst (render st))) = saved (ctx st)"
  using for_each_keeps_state
    [of "\<lambda>kv c. render_player st (snd kv) c" "visited_players st", OF render_player_keeps_state]
  by (simp add: render_def Let_def ctx_call_def split: option.splits)

lemma updateViewport_ctx: "ctx (updateViewport st) = ctx st"
  by (simp add: updateViewport_def Let_def split: option.splits)

lemma handleMessage_keeps_state:
  "current (ctx (fst (handleMessage st m))) = current (ctx st) \<and>
   saved (ctx (fst (handleMessage st m))) = saved (ctx st)"
  by (cases m)
    (simp_all add: handleMessage_def Let_def render_keeps_state updateViewport_ctx
      console_log_def console_error_def fold_store_new_Avatar store_new_Avatar_def
      split: option.splits)

lemma new_GameClient_state:
  "transform (current (ctx (new_GameClient w h))) = identity \<and>
   saved (ctx (new_GameClient w h)) = []"
  by (simp add: new_GameClient_def loadWorldMap_def setupCanvas_def default_drawing_state_def)

section \<open>What holds in every state of the client\<close>

text \<open>
  From its creation on the client holds an image object in \<^verbatim>\<open>worldImage\<close>, loaded or
  not, and its context is in the default drawing state between two events. So every
  \<^verbatim>\<open>render\<close> of the client clears the canvas.
\<close>

lemma render_worldImage: "worldImage (fst (render st)) = worldImage st"
  by (simp add: render_def Let_def split: option.splits)

lemma updateViewport_worldImage: "worldImage (updateViewport st) = worldImage st"
  by (simp add: updateViewport_def Let_def split: option.splits)

lemma handleMessage_worldImage: "worldImage (fst (handleMessage st m)) = worldImage st"
  by (cases m)
    (simp_all add: handleMessage_def Let_def render_worldImage updateViewport_worldImage
      console_log_def console_error_def fold_store_new_Avatar store_new_Avatar_def
      split: option.splits)

lemma ws_onmessage_fields:
  "worldImage (ws_onmessage JSON_parse st data) = worldImage st \<and>
   current (ctx (ws_onmessage JSON_parse st data)) = current (ctx st) \<and>
   saved (ctx (ws_onmessage JSON_parse st data)) = saved (ctx st)"
proof (cases "JSON_parse data")
  case (Inl e)
  then show ?thesis by (simp add: ws_onmessage_def console_error_def)
next
  case (Inr m)
  obtain st' r where h: "handleMessage st m = (st', r)"
    by (cases "handleMessage st m")
  have f: "worldImage st' = worldImage st" "current (ctx st') = current (ctx st)"
    "saved (ctx st') = saved (ctx st)"
    using handleMessage_worldImage [of st m] handleMessage_keeps_state [of st m] h by simp_all
  show ?thesis
    using Inr h f by (cases r) (simp_all add: ws_onmessage_def console_error_def)
qed

lemma reachable_invariant:
  "reachable st \<Longrightarrow>
   worldImage st \<noteq> None \<and> current (ctx st) = default_drawing_state \<and> saved (ctx st) = []"
proof (induction rule: reachable.induct)
  case (created innerWidth innerHeight)
  show ?case
    by (simp add: new_GameClient_def loadWorldMap_def setupCanvas_def)
next
  case (opened st)
  then show ?case by (simp add: ws_onopen_def joinGame_def console_log_def)
next
  case (received st JSON_parse data)
  then show ?case by (simp add: ws_onmessage_fields)
next
  case (closed st)
  then show ?case by (simp add: ws_onclose_def console_log_def)
next
  case (socket_error st e)
  then show ?case by (simp add: ws_onerror_def console_error_def)
next
  case (world_loaded st)
  then show ?case
    by (auto simp: worldImage_onload_def render_worldImage render_keeps_state)
next
  case (world_failed st)
  then show ?case by (auto simp: worldImage_onerror_def console_error_def)
next
  case (resized st innerWidth innerHeight)
  then show ?case
    by (simp add: window_onresize_def render_worldImage render_keeps_state
        updateViewport_worldImage updateViewport_ctx setupCanvas_def)
next
  case (frame_loaded st k av d i)
  then show ?case by simp
next
  case (prototype_frame_loaded st av d i)
  then show ?case by simp
qed

lemma calls_draw: "\<exists>ys. calls (draw av c x y d i w) = calls c @ ys"
proof (cases "loaded_frame av (if w then ''east'' else d) i")
  case None
  then show ?thesis by (simp add: draw_absent)
next
  case (Some frame)
  then show ?thesis
    by (cases w) (simp_all add: draw_mirrored draw_plain)
qed

lemma calls_drawPlayer: "\<exists>ys. calls (fst (drawPlayer st p x y c)) = calls c @ ys"
proof (cases "get_property Avatar_members (avatars st) (ToString (avatar p))")
  case Undefined
  then show ?thesis by (simp add: drawPlayer_def)
next
  case (Other t)
  then show ?thesis by (simp add: drawPlayer_def)
next
  case (Value av)
  have "\<exists>ys. calls (case animationFrame p of None \<Rightarrow> c
      | Some i \<Rightarrow> draw av c x y (ToString (facing p)) i (facing p = Some ''west'')) = calls c @ ys"
  proof (cases "animationFrame p")
    case None
    then show ?thesis by simp
  next
    case (Some i)
    then show ?thesis
      using calls_draw [of av c x y "ToString (facing p)" i "facing p = Some ''west''"] by simp
  qed
  then obtain ys where "calls (case animationFrame p of None \<Rightarrow> c
      | Some i \<Rightarrow> draw av c x y (ToString (facing p)) i (facing p = Some ''west'')) = calls c @ ys"
    by blast
  with Value show ?thesis
    by (simp add: drawPlayer_def Let_def ctx_save_def ctx_call_def ctx_restore_def)
qed

lemma calls_render_player: "\<exists>ys. calls (fst (render_player st v c)) = calls c @ ys"
  using calls_drawPlayer
  by (simp add: render_player_def split: option.splits property.splits)

lemma calls_for_each:
  assumes "\<And>a c. \<exists>ys. calls (fst (body a c)) = calls c @ ys"
  shows "\<exists>ys. calls (fst (for_each body xs c)) = calls (c :: context2d) @ ys"
proof (induction xs arbitrary: c)
  case Nil
  show ?case by simp
next
  case (Cons a xs)
  obtain c' r where b: "body a c = (c', r)" by (cases "body a c")
  with assms [of a c] obtain ys where y: "calls c' = calls c @ ys" by auto
  obtain zs where "calls (fst (for_each body xs c')) = calls c' @ zs"
    using Cons.IH by blast
  with y show ?case
    by (cases r) (simp_all add: b)
qed

lemma render_clears_first:
  assumes "worldImage st = Some img"
  shows "\<exists>ys. calls (ctx (fst (render st))) =
           calls (ctx st) @
           (ClearRect 0 0 (canvas_width st) (canvas_height st), current (ctx st)) # ys"
proof (cases "status img = Broken")
  case True
  with assms show ?thesis by (simp add: render_def ctx_call_def)
next
  case False
  let ?c1 = "ctx_call (DrawImageSub img (viewportX st) (viewportY st)
                 (canvas_width st) (canvas_height st) 0 0 (canvas_width st) (canvas_height st))
               (ctx_call (ClearRect 0 0 (canvas_width st) (canvas_height st)) (ctx st))"
  obtain ys where "calls (fst (for_each (\<lambda>kv c. render_player st (snd kv) c)
      (visited_players st) ?c1)) = calls ?c1 @ ys"
    using calls_for_each
      [of "\<lambda>kv c. render_player st (snd kv) c" "visited_players st" ?c1, OF calls_render_player]
    by blast
  with assms False show ?thesis
    by (simp add: render_def Let_def ctx_call_def)
qed

lemma render_of_reachable:
  assumes "reachable st"
  shows "\<exists>ys. calls (ctx (fst (render st))) =
           calls (ctx st) @
           (ClearRect 0 0 (canvas_width st) (canvas_height st), default_drawing_state) # ys"
proof -
  from reachable_invariant [OF assms] obtain img
    where "worldImage st = Some img" and "current (ctx st) = default_drawing_state"
    by auto
  with render_clears_first [of st img] show ?thesis by simp
qed

section \<open>The example data\<close>

lemma not_index_special:
  "array_index ''__proto__'' = None" "array_index ''constructor'' = None"
  by (simp_all add: array_index_def is_digit_def)

lemma example_new_Avatar:
  "loadedImages (new_Avatar example_avatarData) = [(''east'', []), (''south'', [])]"
  by (simp add: new_Avatar_def example_avatarData_def for_in_def not_index)

lemma example_player_fields:
  "player_x (example_player k x y) = Some x" "player_y (example_player k x y) = Some y"
  "facing (example_player k x y) = Some ''south''"
  "animationFrame (example_player k x y) = Some 0"
  "avatar (example_player k x y) = Some ''a1''"
  "username (example_player k x y) = Some ''Olutobi''"
  "player_id (example_player k x y) = Some k"
  by (simp_all add: example_player_def)

lemma new_GameClient_fields:
  "canvas_width (new_GameClient w h) = w" "canvas_height (new_GameClient w h) = h"
  "worldWidth (new_GameClient w h) = 2048" "worldHeight (new_GameClient w h) = 2048"
  "worldImage (new_GameClient w h) = Some \<lparr>src = ''world.jpg'', status = Loading\<rparr>"
  "ctx (new_GameClient w h) = new_context" "viewportX (new_GameClient w h) = Num 0"
  "viewportY (new_GameClient w h) = Num 0" "playerId (new_GameClient w h) = None"
  "players (new_GameClient w h) = from_JSON []" "avatars (new_GameClient w h) = from_JSON []"
  "console (new_GameClient w h) = []" "constructed (new_GameClient w h) = []"
  by (simp_all add: new_GameClient_def loadWorldMap_def setupCanvas_def new_context_def)

lemma example_state_fields:
  "canvas_width example_state = 800" "canvas_height example_state = 600"
  "worldWidth example_state = 2048" "worldHeight example_state = 2048"
  "playerId example_state = Some ''p1''"
  "players example_state =
     from_JSON [(''p1'', example_player ''p1'' 100 100), (''p2'', example_player ''p2'' 5 5)]"
  "avatars example_state = from_JSON []"
  "viewportX example_state = Num 0" "viewportY example_state = Num 0"
  "console example_state = []" "constructed example_state = []"
  "ctx example_state = new_context"
  "worldImage example_state = Some \<lparr>src = ''world.jpg'', status = Loading\<rparr>"
  by (simp_all add: example_state_def new_GameClient_fields)

lemma example_avatarData_fields:
  "frames (new_Avatar example_avatarData) = [(''east'', [''e0'', ''e1'']), (''south'', [''s0''])]"
  by (simp add: new_Avatar_def example_avatarData_def)

lemma example_avatar_images:
  "loadedImages example_avatar =
     [(''east'', [None, Some \<lparr>src = ''e1'', status = Loaded\<rparr>]), (''south'', [])]"
  by (simp add: example_avatar_def img_onload_def example_new_Avatar example_avatarData_fields
      array_set_def)

lemma example_avatar_frames:
  "loaded_frame example_avatar ''east'' 1 = Some \<lparr>src = ''e1'', status = Loaded\<rparr>"
  "loaded_frame example_avatar ''east'' 0 = None"
  "loaded_frame example_avatar ''south'' 0 = None"
  "loaded_frame example_avatar ''north'' 0 = None"
  by (simp_all add: loaded_frame_def example_avatar_images array_get_def)

section \<open>The viewport\<close>

lemma updateViewport_found:
  assumes "playerId st = Some k" and "k \<noteq> []"
    and "get_property Player_members (players st) k = Value p"
  shows "viewportX (updateViewport st) =
           Math_max (Num 0) (Math_min (Num (worldWidth st - canvas_width st))
             (js_minus (ToNumber (player_x p)) (Num (canvas_width st / 2))))"
    and "viewportY (updateViewport st) =
           Math_max (Num 0) (Math_min (Num (worldHeight st - canvas_height st))
             (js_minus (ToNumber (player_y p)) (Num (canvas_height st / 2))))"
  using assms by (simp_all add: updateViewport_def Let_def truthy_def x_of_def y_of_def)

text \<open>
  C1. When \<^verbatim>\<open>this.players[this.playerId]\<close> is a player with the coordinates
  \<open>(x, y)\<close>, \<^verbatim>\<open>updateViewport\<close> sets the viewport origin, on each axis, to the
  coordinate minus half the viewport size, clamped between 0 and the larger of 0 and
  world size minus viewport size. So the origin lies between 0 and world size minus
  viewport size when the viewport fits into the world, and is 0 on an axis where the
  viewport is larger than the world.
\<close>

theorem updateViewport_clamp:
  assumes "playerId st = Some k" and "k \<noteq> []"
    and "get_property Player_members (players st) k = Value p"
    and "player_x p = Some x" and "player_y p = Some y"
  shows "\<exists>vx vy.
           viewportX (updateViewport st) = Num vx \<and> viewportY (updateViewport st) = Num vy \<and>
           vx = clamp (x - canvas_width st / 2) 0 (max 0 (worldWidth st - canvas_width st)) \<and>
           vy = clamp (y - canvas_height st / 2) 0 (max 0 (worldHeight st - canvas_height st)) \<and>
           (canvas_width st \<le> worldWidth st \<longrightarrow> 0 \<le> vx \<and> vx \<le> worldWidth st - canvas_width st) \<and>
           (canvas_height st \<le> worldHeight st \<longrightarrow>
              0 \<le> vy \<and> vy \<le> worldHeight st - canvas_height st) \<and>
           (worldWidth st < canvas_width st \<longrightarrow> vx = 0) \<and>
           (worldHeight st < canvas_height st \<longrightarrow> vy = 0)"
proof -
  have vx: "viewportX (updateViewport st) =
      Num (clamp (x - canvas_width st / 2) 0 (max 0 (worldWidth st - canvas_width st)))"
    using updateViewport_found(1) [OF assms(1-3)] assms(4)
    by (simp add: ToNumber_def clamp_def min_def max_def)
  have vy: "viewportY (updateViewport st) =
      Num (clamp (y - canvas_height st / 2) 0 (max 0 (worldHeight st - canvas_height st)))"
    using updateViewport_found(2) [OF assms(1-3)] assms(5)
    by (simp add: ToNumber_def clamp_def min_def max_def)
  show ?thesis
    unfolding vx vy by (simp add: clamp_def min_def max_def)
qed

theorem updateViewport_clamp_witness:
  "playerId (example_state\<lparr>players := from_JSON example_moved\<rparr>) = Some ''p1'' \<and>
   ''p1'' \<noteq> [] \<and>
   get_property Player_members (players (example_state\<lparr>players := from_JSON example_moved\<rparr>))
     ''p1'' = Value (example_player ''p1'' 1900 50) \<and>
   player_x (example_player ''p1'' 1900 50) = Some 1900 \<and>
   player_y (example_player ''p1'' 1900 50) = Some 50 \<and>
   canvas_width (example_state\<lparr>players := from_JSON example_moved\<rparr>) = 800 \<and>
   canvas_height (example_state\<lparr>players := from_JSON example_moved\<rparr>) = 600 \<and>
   worldWidth (example_state\<lparr>players := from_JSON example_moved\<rparr>) = 2048 \<and>
   worldHeight (example_state\<lparr>players := from_JSON example_moved\<rparr>) = 2048 \<and>
   viewportX (updateViewport (example_state\<lparr>players := from_JSON example_moved\<rparr>)) = Num 1248 \<and>
   viewportY (updateViewport (example_state\<lparr>players := from_JSON example_moved\<rparr>)) = Num 0 \<and>
   worldWidth (example_state\<lparr>players := from_JSON example_moved, canvas_width := 3000\<rparr>)
     < canvas_width (example_state\<lparr>players := from_JSON example_moved, canvas_width := 3000\<rparr>) \<and>
   viewportX (updateViewport
     (example_state\<lparr>players := from_JSON example_moved, canvas_width := 3000\<rparr>)) = Num 0"
proof -
  let ?s = "example_state\<lparr>players := from_JSON example_moved\<rparr>"
  let ?t = "example_state\<lparr>players := from_JSON example_moved, canvas_width := 3000\<rparr>"
  have f: "playerId ?s = Some ''p1''" "canvas_width ?s = 800" "canvas_height ?s = 600"
    "worldWidth ?s = 2048" "worldHeight ?s = 2048"
    "get_property Player_members (players ?s) ''p1'' = Value (example_player ''p1'' 1900 50)"
    by (simp_all add: example_state_fields example_moved_def get_property_def from_JSON_def)
  have g: "playerId ?t = Some ''p1''" "canvas_width ?t = 3000" "worldWidth ?t = 2048"
    "get_property Player_members (players ?t) ''p1'' = Value (example_player ''p1'' 1900 50)"
    by (simp_all add: example_state_fields example_moved_def get_property_def from_JSON_def)
  have n: "''p1'' \<noteq> []" by simp
  have x: "player_x (example_player ''p1'' 1900 50) = Some 1900"
    and y: "player_y (example_player ''p1'' 1900 50) = Some 50"
    by (simp_all add: example_player_fields)
  from updateViewport_clamp [OF f(1) n f(6) x y] obtain vx vy
    where a: "viewportX (updateViewport ?s) = Num vx" "viewportY (updateViewport ?s) = Num vy"
      "vx = clamp (1900 - canvas_width ?s / 2) 0 (max 0 (worldWidth ?s - canvas_width ?s))"
      "vy = clamp (50 - canvas_height ?s / 2) 0 (max 0 (worldHeight ?s - canvas_height ?s))"
    by blast
  from updateViewport_clamp [OF g(1) n g(4) x y] obtain wx wy
    where b: "viewportX (updateViewport ?t) = Num wx"
      "worldWidth ?t < canvas_width ?t \<longrightarrow> wx = 0"
    by blast
  have "viewportX (updateViewport ?s) = Num 1248"
    using a(1) a(3) by (simp add: f clamp_def)
  moreover have "viewportY (updateViewport ?s) = Num 0"
    using a(2) a(4) by (simp add: f clamp_def)
  moreover have "viewportX (updateViewport ?t) = Num 0"
    using b by (simp add: g)
  ultimately show ?thesis
    using f g x y by simp
qed

text \<open>
  C10. The claim is that \<^verbatim>\<open>updateViewport\<close> leaves the viewport as it is when the
  local player id is null or no key of the players. Its test reads
  \<^verbatim>\<open>this.players[this.playerId]\<close>, which also finds what the object inherits: the
  id \<^verbatim>\<open>constructor\<close> is no key of the players, the test passes all the same, the
  coordinates read are undefined, and the viewport, which was \<open>(0, 0)\<close>, becomes
  not-a-number. So it is after a join response with that id. (Where the lookup gives
  undefined the viewport does stay: \<open>updateViewport_absent\<close>.)
\<close>

theorem updateViewport_inherited_id:
  "playerId (example_state\<lparr>playerId := Some ''constructor''\<rparr>) = Some ''constructor'' \<and>
   map_of (own (players (example_state\<lparr>playerId := Some ''constructor''\<rparr>))) ''constructor''
     = None \<and>
   viewportX (example_state\<lparr>playerId := Some ''constructor''\<rparr>) = Num 0 \<and>
   viewportY (example_state\<lparr>playerId := Some ''constructor''\<rparr>) = Num 0 \<and>
   viewportX (updateViewport (example_state\<lparr>playerId := Some ''constructor''\<rparr>)) = NaN \<and>
   viewportY (updateViewport (example_state\<lparr>playerId := Some ''constructor''\<rparr>)) = NaN \<and>
   viewportX (fst (handleMessage (new_GameClient 800 600)
     (JoinGame True ''constructor'' [(''p1'', example_player ''p1'' 100 100)] [] []))) = NaN \<and>
   viewportY (fst (handleMessage (new_GameClient 800 600)
     (JoinGame True ''constructor'' [(''p1'', example_player ''p1'' 100 100)] [] []))) = NaN"
proof -
  let ?s = "example_state\<lparr>playerId := Some ''constructor''\<rparr>"
  have g: "get_property Player_members (from_JSON ps) ''constructor'' = Other True"
    if "map_of ps ''constructor'' = None" for ps :: "Player object"
    using that by (simp add: get_property_def from_JSON_def Object_prototype_def)
  have p: "get_property Player_members (players ?s) ''constructor'' = Other True"
    by (simp add: example_state_fields g)
  have u: "viewportX (updateViewport ?s) = NaN \<and> viewportY (updateViewport ?s) = NaN"
    using p by (simp add: updateViewport_def Let_def truthy_def x_of_def y_of_def ToNumber_def)
  let ?j = "(new_GameClient 800 600)
      \<lparr>playerId := Some ''constructor'',
       players := from_JSON [(''p1'', example_player ''p1'' 100 100)], avatars := from_JSON []\<rparr>"
  have q: "get_property Player_members (players ?j) ''constructor'' = Other True"
    by (simp add: g)
  have v: "viewportX (updateViewport ?j) = NaN \<and> viewportY (updateViewport ?j) = NaN"
    using q by (simp add: updateViewport_def Let_def truthy_def x_of_def y_of_def ToNumber_def)
  have h: "viewportX (fst (handleMessage (new_GameClient 800 600)
       (JoinGame True ''constructor'' [(''p1'', example_player ''p1'' 100 100)] [] []))) =
       viewportX (updateViewport ?j) \<and>
     viewportY (fst (handleMessage (new_GameClient 800 600)
       (JoinGame True ''constructor'' [(''p1'', example_player ''p1'' 100 100)] [] []))) =
       viewportY (updateViewport ?j)"
    by (simp add: handleMessage_def Let_def for_in_def render_keeps console_log_def
        split: option.splits)
  show ?thesis
    using u v h by (simp add: example_state_fields from_JSON_def)
qed

section \<open>The events of the server\<close>

lemma players_moved_state:
  "fst (handleMessage st (PlayersMoved ps)) = s \<Longrightarrow>
   players s = Object_assign (players st) ps \<and> playerId s = playerId st \<and>
   avatars s = avatars st \<and> constructed s = constructed st"
  by (auto simp: handleMessage_def render_keeps updateViewport_keeps)

lemma players_moved_entries:
  assumes "distinct (map fst ps)"
  shows "map_of (own (players (fst (handleMessage st (PlayersMoved ps))))) k =
           (if k = ''__proto__'' \<and> map_of (own (players st)) ''__proto__'' = None then None
            else (case map_of ps k of Some p \<Rightarrow> Some p | None \<Rightarrow> map_of (own (players st)) k))"
    and "proto (players (fst (handleMessage st (PlayersMoved ps)))) =
           (if map_of (own (players st)) ''__proto__'' = None
            then (case map_of ps ''__proto__'' of Some p \<Rightarrow> Some p | None \<Rightarrow> proto (players st))
            else proto (players st))"
  using players_moved_state [OF refl, of st ps]
  by (simp_all add: own_Object_assign [OF assms] proto_Object_assign [OF assms])

text \<open>
  C2. The claim is that a \<^verbatim>\<open>players_moved\<close> event replaces or adds the entry of
  every id of its payload and leaves the rest as it was. \<^verbatim>\<open>Object.assign\<close> assigns
  with \<^verbatim>\<open>target[k] = v\<close>: for the id \<^verbatim>\<open>__proto__\<close> this adds no entry and makes
  the payload's player the prototype of the players, so that keys outside the payload,
  such as \<^verbatim>\<open>x\<close>, are found in the players afterwards. (For every other id, and for
  their own properties, the entries are those the claim names:
  \<open>players_moved_entries\<close>.)
\<close>

theorem players_moved_proto_id:
  "map_of (own (players example_state)) ''__proto__'' = None \<and>
   own (players (fst (handleMessage example_state
          (PlayersMoved [(''__proto__'', example_player ''ghost'' 7 7)])))) =
     own (players example_state) \<and>
   map_of (own (players (fst (handleMessage example_state
          (PlayersMoved [(''__proto__'', example_player ''ghost'' 7 7)]))))) ''__proto__'' = None \<and>
   proto (players example_state) = None \<and>
   proto (players (fst (handleMessage example_state
          (PlayersMoved [(''__proto__'', example_player ''ghost'' 7 7)])))) =
     Some (example_player ''ghost'' 7 7) \<and>
   get_property Player_members (players example_state) ''x'' = Undefined \<and>
   get_property Player_members (players (fst (handleMessage example_state
          (PlayersMoved [(''__proto__'', example_player ''ghost'' 7 7)])))) ''x'' = Other True"
proof -
  let ?g = "example_player ''ghost'' 7 7"
  let ?d = "from_JSON [(''p1'', example_player ''p1'' 100 100), (''p2'', example_player ''p2'' 5 5)]"
  have a: "Object_assign (players example_state) [(''__proto__'', ?g)] = ?d\<lparr>proto := Some ?g\<rparr>"
    by (simp add: Object_assign_def for_in_one not_index_special set_property_def
        example_state_fields from_JSON_def)
  have s: "players (fst (handleMessage example_state (PlayersMoved [(''__proto__'', ?g)]))) =
      ?d\<lparr>proto := Some ?g\<rparr>"
    using players_moved_state [OF refl, of example_state "[(''__proto__'', ?g)]"] a by simp
  have x: "get_property Player_members (?d\<lparr>proto := Some ?g\<rparr>) ''x'' = Other True"
    by (simp add: get_property_def from_JSON_def Player_members_def present_def
        example_player_fields)
  have u: "get_property Player_members ?d ''x'' = Undefined"
    by (simp add: get_property_def from_JSON_def Object_prototype_def)
  show ?thesis
    unfolding s using x u by (simp add: example_state_fields from_JSON_def)
qed

text \<open>
  C3. Applying the same \<^verbatim>\<open>players_moved\<close> payload a second time changes nothing of
  the session: the players, the local player id, the avatars and the viewport are those
  of the first application.
\<close>

theorem players_moved_twice:
  assumes "distinct (map fst ps)"
  shows "players (fst (handleMessage (fst (handleMessage st (PlayersMoved ps))) (PlayersMoved ps))) =
           players (fst (handleMessage st (PlayersMoved ps))) \<and>
         playerId (fst (handleMessage (fst (handleMessage st (PlayersMoved ps))) (PlayersMoved ps))) =
           playerId (fst (handleMessage st (PlayersMoved ps))) \<and>
         avatars (fst (handleMessage (fst (handleMessage st (PlayersMoved ps))) (PlayersMoved ps))) =
           avatars (fst (handleMessage st (PlayersMoved ps))) \<and>
         viewportX (fst (handleMessage (fst (handleMessage st (PlayersMoved ps))) (PlayersMoved ps))) =
           viewportX (fst (handleMessage st (PlayersMoved ps))) \<and>
         viewportY (fst (handleMessage (fst (handleMessage st (PlayersMoved ps))) (PlayersMoved ps))) =
           viewportY (fst (handleMessage st (PlayersMoved ps)))"
proof -
  define s0 where "s0 = st\<lparr>players := Object_assign (players st) ps\<rparr>"
  define s1 where "s1 = fst (render (updateViewport s0))"
  have h1: "fst (handleMessage st (PlayersMoved ps)) = s1"
    by (simp add: handleMessage_def s0_def s1_def)
  have p1: "players s1 = Object_assign (players st) ps"
    by (simp add: s1_def s0_def render_keeps updateViewport_keeps)
  have same: "s1\<lparr>players := Object_assign (players s1) ps\<rparr> = s1"
    using Object_assign_twice [OF assms, of "players st"] by (simp add: p1)
  have h2: "fst (handleMessage s1 (PlayersMoved ps)) = fst (render (updateViewport s1))"
    by (simp add: handleMessage_def same)
  have vx: "viewportX (updateViewport s1) = viewportX s1"
   and vy: "viewportY (updateViewport s1) = viewportY s1"
    by (simp_all add: s1_def updateViewport_def render_keeps Let_def split: option.splits)
  show ?thesis
    unfolding h1 h2 by (simp add: render_keeps updateViewport_keeps vx vy)
qed

theorem players_moved_twice_witness:
  "distinct (map fst example_moved) \<and>
   viewportX (fst (handleMessage example_state (PlayersMoved example_moved))) = Num 1248 \<and>
   viewportY (fst (handleMessage example_state (PlayersMoved example_moved))) = Num 0 \<and>
   viewportX (fst (handleMessage (fst (handleMessage example_state (PlayersMoved example_moved)))
                     (PlayersMoved example_moved))) = Num 1248 \<and>
   viewportY (fst (handleMessage (fst (handleMessage example_state (PlayersMoved example_moved)))
                     (PlayersMoved example_moved))) = Num 0 \<and>
   players (fst (handleMessage (fst (handleMessage example_state (PlayersMoved example_moved)))
                   (PlayersMoved example_moved))) =
     players (fst (handleMessage example_state (PlayersMoved example_moved)))"
proof -
  have h: "distinct (map fst example_moved)"
    by (simp add: example_moved_def)
  let ?s = "example_state\<lparr>players := Object_assign (players example_state) example_moved\<rparr>"
  have o: "map_of (own (players ?s)) ''p1'' = Some (example_player ''p1'' 1900 50)"
    by (simp add: own_Object_assign [OF h]) (simp add: example_moved_def)
  have p: "get_property Player_members (players ?s) ''p1'' = Value (example_player ''p1'' 1900 50)"
    using o by (simp add: get_property_def)
  have f: "playerId ?s = Some ''p1''" "canvas_width ?s = 800" "canvas_height ?s = 600"
    "worldWidth ?s = 2048" "worldHeight ?s = 2048"
    by (simp_all add: example_state_fields)
  have n: "''p1'' \<noteq> []" by simp
  have v: "viewportX (updateViewport ?s) = Num 1248 \<and> viewportY (updateViewport ?s) = Num 0"
    using updateViewport_found [OF f(1) n p]
    by (simp add: f(2-5) example_player_fields ToNumber_def)
  have o: "viewportX (fst (handleMessage example_state (PlayersMoved example_moved))) = Num 1248 \<and>
           viewportY (fst (handleMessage example_state (PlayersMoved example_moved))) = Num 0"
    using v by (simp add: handleMessage_def render_keeps)
  show ?thesis
    using players_moved_twice [OF h, of example_state] h o by simp
qed

text \<open>
  C4. When the data of an inbound message does not parse, the handler logs the error
  and returns; the local player id, the players, the avatars and the viewport, and
  everything else but the console, are as they were before the message.
\<close>

theorem malformed_message_keeps_state:
  assumes "JSON_parse data = Inl e"
  shows "ws_onmessage JSON_parse st data =
           st\<lparr>console := console st @ [ConsoleError [''Error parsing message:'', e]]\<rparr> \<and>
         playerId (ws_onmessage JSON_parse st data) = playerId st \<and>
         players (ws_onmessage JSON_parse st data) = players st \<and>
         avatars (ws_onmessage JSON_parse st data) = avatars st \<and>
         viewportX (ws_onmessage JSON_parse st data) = viewportX st \<and>
         viewportY (ws_onmessage JSON_parse st data) = viewportY st"
  using assms by (simp add: ws_onmessage_def console_error_def)

theorem malformed_message_keeps_state_witness:
  "example_parse ''{'' = Inl ''Unexpected token'' \<and>
   ws_onmessage example_parse example_state ''{'' =
     example_state\<lparr>console := [ConsoleError [''Error parsing message:'', ''Unexpected token'']]\<rparr> \<and>
   players (ws_onmessage example_parse example_state ''{'') = players example_state \<and>
   viewportX (ws_onmessage example_parse example_state ''{'') = viewportX example_state"
proof -
  have h: "example_parse ''{'' = Inl ''Unexpected token''"
    by (simp add: example_parse_def)
  have c: "console example_state = []"
    by (simp add: example_state_def new_GameClient_def loadWorldMap_def setupCanvas_def)
  show ?thesis
    using malformed_message_keeps_state [where JSON_parse = example_parse and data = "''{''"
        and e = "''Unexpected token''" and st = example_state] h
    by (simp add: c)
qed

lemma join_avatars_own:
  assumes "distinct (map fst avs)"
  shows "own (fold (\<lambda>kv t. set_property (fst kv) (new_Avatar (snd kv)) t) (for_in avs)
               (from_JSON [])) =
           map (\<lambda>kv. (fst kv, new_Avatar (snd kv)))
             (filter (\<lambda>kv. fst kv \<noteq> ''__proto__'') (for_in avs))"
  using own_fold_set_property_fresh
    [OF distinct_keys_for_in [OF assms], of "from_JSON []" new_Avatar]
  by (simp add: from_JSON_def)

lemma join_avatars_proto:
  assumes "distinct (map fst avs)"
  shows "proto (fold (\<lambda>kv t. set_property (fst kv) (new_Avatar (snd kv)) t) (for_in avs)
               (from_JSON [])) =
           map_option new_Avatar (map_of avs ''__proto__'')"
  using proto_fold_set_property
    [OF distinct_keys_for_in [OF assms], of new_Avatar "from_JSON []"]
  by (simp add: from_JSON_def map_of_for_in [OF assms] split: option.splits)

lemma join_avatars_found:
  assumes "distinct (map fst avs)" and "map_of avs k = Some a"
  shows "get_property Avatar_members
           (fold (\<lambda>kv t. set_property (fst kv) (new_Avatar (snd kv)) t) (for_in avs)
              (from_JSON [])) k = Value (new_Avatar a)"
proof (cases "k = ''__proto__''")
  case True
  have "map_of (own (fold (\<lambda>kv t. set_property (fst kv) (new_Avatar (snd kv)) t) (for_in avs)
               (from_JSON []))) ''__proto__'' = None"
    by (simp add: own_fold_set_property [OF distinct_keys_for_in [OF assms(1)]] from_JSON_def)
  with True assms(2) show ?thesis
    by (simp add: get_property_def join_avatars_proto [OF assms(1)])
next
  case False
  then have "map_of (own (fold (\<lambda>kv t. set_property (fst kv) (new_Avatar (snd kv)) t) (for_in avs)
               (from_JSON []))) k = Some (new_Avatar a)"
    using assms(2)
    by (simp add: own_fold_set_property [OF distinct_keys_for_in [OF assms(1)]]
        map_of_for_in [OF assms(1)])
  then show ?thesis
    by (simp add: get_property_def)
qed

text \<open>
  C6. A successful join response sets the local player id to the id of the response,
  replaces the players by the snapshot of the response, whatever they were, and
  constructs one Avatar for each avatar definition of the response, in their order. The
  avatars are built anew from them: each is found under its name; all are own
  properties but the one named \<^verbatim>\<open>__proto__\<close>, if there is one, which becomes the
  prototype. A failed join response leaves the local player id, the players and the
  avatars as they were, constructs nothing and logs the error.
\<close>

theorem join_response:
  assumes "distinct (map fst avs)"
  shows "playerId (fst (handleMessage st (JoinGame True pid ps avs err))) = Some pid \<and>
         players (fst (handleMessage st (JoinGame True pid ps avs err))) = from_JSON ps \<and>
         constructed (fst (handleMessage st (JoinGame True pid ps avs err))) =
           constructed st @ map (\<lambda>kv. new_Avatar (snd kv)) (for_in avs) \<and>
         length (constructed (fst (handleMessage st (JoinGame True pid ps avs err)))) =
           length (constructed st) + length avs \<and>
         own (avatars (fst (handleMessage st (JoinGame True pid ps avs err)))) =
           map (\<lambda>kv. (fst kv, new_Avatar (snd kv)))
             (filter (\<lambda>kv. fst kv \<noteq> ''__proto__'') (for_in avs)) \<and>
         proto (avatars (fst (handleMessage st (JoinGame True pid ps avs err)))) =
           map_option new_Avatar (map_of avs ''__proto__'') \<and>
         (\<forall>k a. map_of avs k = Some a \<longrightarrow>
            get_property Avatar_members
              (avatars (fst (handleMessage st (JoinGame True pid ps avs err)))) k =
              Value (new_Avatar a)) \<and>
         handleMessage st (JoinGame False pid ps avs err) =
           (st\<lparr>console := console st @ [ConsoleError [''Failed to join game:'', err]]\<rparr>, None) \<and>
         playerId (fst (handleMessage st (JoinGame False pid ps avs err))) = playerId st \<and>
         players (fst (handleMessage st (JoinGame False pid ps avs err))) = players st \<and>
         avatars (fst (handleMessage st (JoinGame False pid ps avs err))) = avatars st \<and>
         constructed (fst (handleMessage st (JoinGame False pid ps avs err))) = constructed st"
proof -
  have f: "handleMessage st (JoinGame False pid ps avs err) =
             (st\<lparr>console := console st @ [ConsoleError [''Failed to join game:'', err]]\<rparr>, None)"
    by (simp add: handleMessage_def console_error_def)
  have l: "length (for_in avs) = length avs"
    using set_for_in [of avs] distinct_keys_for_in [OF assms] assms
    by (metis distinct_card distinct_map length_map)
  note j = join_success_state [OF refl, of st pid ps avs err]
  show ?thesis
    using j join_avatars_found [OF assms]
    by (simp add: f l join_avatars_own [OF assms] join_avatars_proto [OF assms] del: map_map)
qed

theorem join_response_witness:
  "distinct (map fst example_avatars) \<and>
   playerId (fst (handleMessage example_state
      (JoinGame True ''p1'' [(''p1'', example_player ''p1'' 100 100)] example_avatars [])))
     = Some ''p1'' \<and>
   players (fst (handleMessage example_state
      (JoinGame True ''p1'' [(''p1'', example_player ''p1'' 100 100)] example_avatars [])))
     = from_JSON [(''p1'', example_player ''p1'' 100 100)] \<and>
   constructed (fst (handleMessage example_state
      (JoinGame True ''p1'' [(''p1'', example_player ''p1'' 100 100)] example_avatars [])))
     = [new_Avatar example_avatarData, new_Avatar example_avatarData] \<and>
   own (avatars (fst (handleMessage example_state
      (JoinGame True ''p1'' [(''p1'', example_player ''p1'' 100 100)] example_avatars []))))
     = [(''a1'', new_Avatar example_avatarData)] \<and>
   proto (avatars (fst (handleMessage example_state
      (JoinGame True ''p1'' [(''p1'', example_player ''p1'' 100 100)] example_avatars []))))
     = Some (new_Avatar example_avatarData) \<and>
   map_of example_avatars ''a1'' = Some example_avatarData \<and>
   get_property Avatar_members (avatars (fst (handleMessage example_state
      (JoinGame True ''p1'' [(''p1'', example_player ''p1'' 100 100)] example_avatars [])))) ''a1''
     = Value (new_Avatar example_avatarData) \<and>
   players (fst (handleMessage example_state (JoinGame False [] [] example_avatars ''full''))) =
     players example_state \<and>
   console (fst (handleMessage example_state (JoinGame False [] [] example_avatars ''full''))) =
     [ConsoleError [''Failed to join game:'', ''full'']]"
proof -
  have h: "distinct (map fst example_avatars)"
    by (simp add: example_avatars_def)
  have i: "for_in example_avatars = example_avatars"
    by (simp add: for_in_def example_avatars_def not_index not_index_special)
  have m: "map_of example_avatars ''a1'' = Some example_avatarData"
    "map_of example_avatars ''__proto__'' = Some example_avatarData"
    by (simp_all add: example_avatars_def)
  note t = join_response [OF h, of example_state "''p1''"
      "[(''p1'', example_player ''p1'' 100 100)]" "[]"]
  note u = join_response [OF h, of example_state "[]" "[]" "''full''"]
  let ?s = "fst (handleMessage example_state
      (JoinGame True ''p1'' [(''p1'', example_player ''p1'' 100 100)] example_avatars []))"
  have "playerId ?s = Some ''p1''"
    using t by blast
  moreover have "players ?s = from_JSON [(''p1'', example_player ''p1'' 100 100)]"
    using t by blast
  moreover have "constructed ?s = [new_Avatar example_avatarData, new_Avatar example_avatarData]"
    using t [THEN conjunct2, THEN conjunct2, THEN conjunct1]
    by (simp add: i example_state_fields) (simp add: example_avatars_def)
  moreover have "own (avatars ?s) = [(''a1'', new_Avatar example_avatarData)]"
    using t [THEN conjunct2, THEN conjunct2, THEN conjunct2, THEN conjunct2, THEN conjunct1]
    by (simp add: i) (simp add: example_avatars_def)
  moreover have "proto (avatars ?s) = Some (new_Avatar example_avatarData)"
    using t [THEN conjunct2, THEN conjunct2, THEN conjunct2, THEN conjunct2, THEN conjunct2,
        THEN conjunct1]
    by (simp add: m)
  moreover have "get_property Avatar_members (avatars ?s) ''a1'' = Value (new_Avatar example_avatarData)"
    using t [THEN conjunct2, THEN conjunct2, THEN conjunct2, THEN conjunct2, THEN conjunct2,
        THEN conjunct2, THEN conjunct1, THEN spec, THEN spec, THEN mp, OF m(1)] .
  moreover have "players (fst (handleMessage example_state
      (JoinGame False [] [] example_avatars ''full''))) = players example_state"
    using u by simp
  moreover have "console (fst (handleMessage example_state
      (JoinGame False [] [] example_avatars ''full''))) =
      [ConsoleError [''Failed to join game:'', ''full'']]"
    using u by (simp add: example_state_fields)
  ultimately show ?thesis
    using h m(1) by blast
qed



section \<open>Rendering\<close>

text \<open>
  C5. The claim is that \<^verbatim>\<open>render\<close> draws nothing while the world image is not
  loaded. The client stores the image object in \<^verbatim>\<open>worldImage\<close> when it is created,
  before it has loaded, so the test of \<^verbatim>\<open>render\<close> does not stop there: in a new
  client whose world image is still loading, the join response makes \<^verbatim>\<open>render\<close>
  clear the canvas, draw the image and draw the label of the player.
\<close>

theorem render_before_world_image_loaded:
  "worldImage (new_GameClient 800 600) = Some \<lparr>src = ''world.jpg'', status = Loading\<rparr> \<and>
   map fst (calls (ctx (fst (handleMessage (new_GameClient 800 600) example_join)))) =
     [ClearRect 0 0 800 600,
      DrawImageSub \<lparr>src = ''world.jpg'', status = Loading\<rparr> (Num 0) (Num 0) 800 600 0 0 800 600,
      StrokeText ''Olutobi'' 100 75,
      FillText ''Olutobi'' 100 75]"
proof -
  let ?p = "example_player ''p1'' 100 100"
  let ?a = "new_Avatar example_avatarData"
  define s2 where "s2 = (new_GameClient 800 600)
      \<lparr>playerId := Some ''p1'', players := from_JSON [(''p1'', ?p)], avatars := from_JSON [],
       constructed := [?a], avatars := \<lparr>own = [(''a1'', ?a)], proto = None\<rparr>\<rparr>"
  have l: "get_property Player_members (players s2) ''p1'' = Value ?p"
    by (simp add: s2_def get_property_def from_JSON_def)
  have i: "playerId s2 = Some ''p1''" and n: "''p1'' \<noteq> []"
    by (simp_all add: s2_def)
  have v: "viewportX (updateViewport s2) = Num 0" "viewportY (updateViewport s2) = Num 0"
    using updateViewport_found [OF i n l]
    by (simp_all add: s2_def new_GameClient_fields example_player_fields ToNumber_def)
  define s3 where "s3 = updateViewport s2"
  have f: "canvas_width s3 = 800" "canvas_height s3 = 600" "ctx s3 = new_context"
    "worldImage s3 = Some \<lparr>src = ''world.jpg'', status = Loading\<rparr>"
    "players s3 = from_JSON [(''p1'', ?p)]"
    "avatars s3 = \<lparr>own = [(''a1'', ?a)], proto = None\<rparr>"
    "viewportX s3 = Num 0" "viewportY s3 = Num 0"
    using v
    by (simp_all add: s3_def updateViewport_keeps updateViewport_ctx updateViewport_worldImage)
      (simp_all add: s2_def new_GameClient_fields)
  have d: "visited_players s3 = [(''p1'', Value ?p)]"
    by (simp add: visited_players_def enumerated_keys_def f for_in_one not_index get_property_def
        from_JSON_def)
  have w: "in_view s3 ?p = Some (100, 100)"
    by (simp add: in_view_def worldToCanvas_def f example_player_fields ToNumber_def)
  have a: "draw ?a c x y ''south'' 0 False = c" for c x y
    by (simp add: draw_def loaded_frame_def example_new_Avatar array_get_def)
  have g: "get_property Avatar_members (avatars s3) ''a1'' = Value ?a"
    by (simp add: f get_property_def)
  have p: "map fst (calls (fst (drawPlayer s3 ?p 100 100 c))) =
             map fst (calls c) @ [StrokeText ''Olutobi'' 100 75, FillText ''Olutobi'' 100 75]"
    and q: "snd (drawPlayer s3 ?p 100 100 c) = None" for c
    by (simp_all add: drawPlayer_def g example_player_fields ToString_def a Let_def ctx_save_def
        ctx_call_def ctx_restore_def)
  have e: "for_each (\<lambda>kv c. render_player s3 (snd kv) c) (visited_players s3) c =
      (fst (drawPlayer s3 ?p 100 100 c), None)" for c
    using q [of c] by (cases "drawPlayer s3 ?p 100 100 c") (simp add: d render_player_def w)
  have r: "map fst (calls (ctx (fst (render s3)))) =
     [ClearRect 0 0 800 600,
      DrawImageSub \<lparr>src = ''world.jpg'', status = Loading\<rparr> (Num 0) (Num 0) 800 600 0 0 800 600,
      StrokeText ''Olutobi'' 100 75,
      FillText ''Olutobi'' 100 75]"
    by (simp add: render_def f e Let_def p) (simp add: ctx_call_def new_context_def)
  have t: "fold (\<lambda>kv s. store_new_Avatar (fst kv) (snd kv) s) (for_in [(''a1'', example_avatarData)])
      ((new_GameClient 800 600)
        \<lparr>playerId := Some ''p1'', players := from_JSON [(''p1'', ?p)], avatars := from_JSON []\<rparr>) = s2"
    by (simp add: for_in_one not_index store_new_Avatar_def Let_def s2_def new_GameClient_fields
        set_property_def from_JSON_def)
  have h: "ctx (fst (handleMessage (new_GameClient 800 600) example_join)) = ctx (fst (render s3))"
    unfolding handleMessage_def example_join_def
    by (simp add: Let_def t s3_def console_log_def split: option.splits)
  show ?thesis
    by (simp add: h r new_GameClient_fields)
qed

text \<open>
  C7. A mirrored draw takes its frame from the east set, whatever the facing, and
  paints it into the square of side 32 centred on the draw point, the same square as
  the plain draw of the east frame at that point; each point of the image lands on the
  mirror image, about the vertical line through the draw point, of where the plain
  draw puts it.
\<close>

theorem mirrored_draw:
  assumes "loaded_frame av ''east'' i = Some frame" and "transform (current c) = identity"
  shows "calls (draw av c x y dir i True) =
           calls c @ [(DrawImage frame (- x - 16) (y - 16) 32 32,
                       (current c)\<lparr>transform := Matrix (- 1) 0 0 1 0 0\<rparr>)] \<and>
         calls (draw av c x y ''east'' i False) =
           calls c @ [(DrawImage frame (x - 16) (y - 16) 32 32, current c)] \<and>
         bounding_box (last (calls (draw av c x y dir i True))) =
           (x - 16, y - 16, x + 16, y + 16) \<and>
         bounding_box (last (calls (draw av c x y ''east'' i False))) =
           (x - 16, y - 16, x + 16, y + 16) \<and>
         (\<forall>s t. canvas_point (last (calls (draw av c x y dir i True))) (s, t) =
                 reflect_about x
                   (canvas_point (last (calls (draw av c x y ''east'' i False))) (s, t)))"
proof -
  have m: "scale_matrix (- 1) 1 (transform (current c)) = Matrix (- 1) 0 0 1 0 0"
    using assms(2) by (simp add: identity_def)
  show ?thesis
    using box_plain [OF assms(2)] box_mirrored [OF assms(2)] point_mirrored [OF assms(2)]
    by (simp add: draw_mirrored [OF assms(1)] draw_plain [OF assms(1)] m [symmetric])
qed

theorem mirrored_draw_witness:
  "loaded_frame example_avatar ''east'' 1 = Some \<lparr>src = ''e1'', status = Loaded\<rparr> \<and>
   transform (current new_context) = identity \<and>
   calls (draw example_avatar new_context 100 75 ''west'' 1 True) =
     [(DrawImage \<lparr>src = ''e1'', status = Loaded\<rparr> (- 116) 59 32 32,
       default_drawing_state\<lparr>transform := Matrix (- 1) 0 0 1 0 0\<rparr>)] \<and>
   bounding_box (last (calls (draw example_avatar new_context 100 75 ''west'' 1 True))) =
     (84, 59, 116, 91) \<and>
   bounding_box (last (calls (draw example_avatar new_context 100 75 ''east'' 1 False))) =
     (84, 59, 116, 91) \<and>
   canvas_point (last (calls (draw example_avatar new_context 100 75 ''west'' 1 True))) (0, 0) =
     reflect_about 100
       (canvas_point (last (calls (draw example_avatar new_context 100 75 ''east'' 1 False))) (0, 0))"
proof -
  have h1: "loaded_frame example_avatar ''east'' 1 = Some \<lparr>src = ''e1'', status = Loaded\<rparr>"
    by (rule example_avatar_frames)
  have h2: "transform (current new_context) = identity"
    by (simp add: new_context_def default_drawing_state_def)
  note t = mirrored_draw [OF h1 h2, of 100 75 "''west''"]
  have "calls (draw example_avatar new_context 100 75 ''west'' 1 True) =
     [(DrawImage \<lparr>src = ''e1'', status = Loaded\<rparr> (- 116) 59 32 32,
       default_drawing_state\<lparr>transform := Matrix (- 1) 0 0 1 0 0\<rparr>)]"
    using t [THEN conjunct1] by (simp add: new_context_def)
  moreover have "bounding_box (last (calls (draw example_avatar new_context 100 75 ''west'' 1 True))) =
     (84, 59, 116, 91)"
    using t [THEN conjunct2, THEN conjunct2, THEN conjunct1] by simp
  moreover have "bounding_box (last (calls (draw example_avatar new_context 100 75 ''east'' 1 False))) =
     (84, 59, 116, 91)"
    using t [THEN conjunct2, THEN conjunct2, THEN conjunct2, THEN conjunct1] by simp
  moreover have "canvas_point (last (calls (draw example_avatar new_context 100 75 ''west'' 1 True))) (0, 0) =
     reflect_about 100
       (canvas_point (last (calls (draw example_avatar new_context 100 75 ''east'' 1 False))) (0, 0))"
    using t [THEN conjunct2, THEN conjunct2, THEN conjunct2, THEN conjunct2] by blast
  ultimately show ?thesis
    using h1 h2 by blast
qed

text \<open>
  C8. When the avatar has no image for the facing and frame index (no array for the
  facing, an index outside the array, or an image that has not loaded),
  \<^verbatim>\<open>Avatar.draw\<close> returns the context as it was. When it has one, the call adds one
  \<^verbatim>\<open>drawImage\<close> of that frame, of size 32 by 32, covering the square centred on the
  target point, and restores the drawing state.
\<close>

theorem draw_missing_or_present:
  "((case map_of (loadedImages av) (if isWest then ''east'' else dir) of
       None \<Rightarrow> True
     | Some arr \<Rightarrow> i < 0 \<or> int (length arr) \<le> i \<or> arr ! nat i = None) \<longrightarrow>
      draw av c x y dir i isWest = c) \<and>
   (loaded_frame av (if isWest then ''east'' else dir) i = Some frame \<and>
    transform (current c) = identity \<longrightarrow>
      butlast (calls (draw av c x y dir i isWest)) = calls c \<and>
      (\<exists>dx dy. fst (last (calls (draw av c x y dir i isWest))) =
                 DrawImage frame dx dy 32 32) \<and>
      bounding_box (last (calls (draw av c x y dir i isWest))) =
        (x - 16, y - 16, x + 16, y + 16) \<and>
      current (draw av c x y dir i isWest) = current c \<and>
      saved (draw av c x y dir i isWest) = saved c)"
proof (rule conjI)
  show "(case map_of (loadedImages av) (if isWest then ''east'' else dir) of
       None \<Rightarrow> True
     | Some arr \<Rightarrow> i < 0 \<or> int (length arr) \<le> i \<or> arr ! nat i = None) \<longrightarrow>
      draw av c x y dir i isWest = c"
    using draw_absent [of av isWest dir i c x y]
    by (simp add: loaded_frame_absent)
next
  show "loaded_frame av (if isWest then ''east'' else dir) i = Some frame \<and>
    transform (current c) = identity \<longrightarrow>
      butlast (calls (draw av c x y dir i isWest)) = calls c \<and>
      (\<exists>dx dy. fst (last (calls (draw av c x y dir i isWest))) =
                 DrawImage frame dx dy 32 32) \<and>
      bounding_box (last (calls (draw av c x y dir i isWest))) =
        (x - 16, y - 16, x + 16, y + 16) \<and>
      current (draw av c x y dir i isWest) = current c \<and>
      saved (draw av c x y dir i isWest) = saved c"
  proof (rule impI)
    assume a: "loaded_frame av (if isWest then ''east'' else dir) i = Some frame \<and>
      transform (current c) = identity"
    then have t: "transform (current c) = identity" by simp
    show "butlast (calls (draw av c x y dir i isWest)) = calls c \<and>
      (\<exists>dx dy. fst (last (calls (draw av c x y dir i isWest))) =
                 DrawImage frame dx dy 32 32) \<and>
      bounding_box (last (calls (draw av c x y dir i isWest))) =
        (x - 16, y - 16, x + 16, y + 16) \<and>
      current (draw av c x y dir i isWest) = current c \<and>
      saved (draw av c x y dir i isWest) = saved c"
    proof (cases isWest)
      case True
      with a have "loaded_frame av ''east'' i = Some frame" by simp
      then show ?thesis
        using True box_mirrored [OF t] by (simp add: draw_mirrored)
    next
      case False
      with a have "loaded_frame av dir i = Some frame" by simp
      then show ?thesis
        using False box_plain [OF t] by (simp add: draw_plain)
    qed
  qed
qed

theorem draw_missing_or_present_witness:
  "map_of (loadedImages example_avatar) (if False then ''east'' else ''north'') = None \<and>
   draw example_avatar new_context 100 75 ''north'' 0 False = new_context \<and>
   map_of (loadedImages example_avatar) (if False then ''east'' else ''south'') = Some [] \<and>
   int (length ([] :: image option list)) \<le> 0 \<and>
   draw example_avatar new_context 100 75 ''south'' 0 False = new_context \<and>
   map_of (loadedImages example_avatar) (if True then ''east'' else ''west'') =
     Some [None, Some \<lparr>src = ''e1'', status = Loaded\<rparr>] \<and>
   [None, Some \<lparr>src = ''e1'', status = Loaded\<rparr>] ! nat 0 = None \<and>
   draw example_avatar new_context 100 75 ''west'' 0 True = new_context \<and>
   loaded_frame example_avatar (if False then ''east'' else ''east'') 1 =
     Some \<lparr>src = ''e1'', status = Loaded\<rparr> \<and>
   transform (current new_context) = identity \<and>
   bounding_box (last (calls (draw example_avatar new_context 100 75 ''east'' 1 False))) =
     (84, 59, 116, 91)"
proof -
  have h1: "map_of (loadedImages example_avatar) (if False then ''east'' else ''north'') = None"
    by (simp add: example_avatar_images)
  have h2: "map_of (loadedImages example_avatar) (if False then ''east'' else ''south'') = Some []"
    by (simp add: example_avatar_images)
  have h3: "map_of (loadedImages example_avatar) (if True then ''east'' else ''west'') =
     Some [None, Some \<lparr>src = ''e1'', status = Loaded\<rparr>]"
    by (simp add: example_avatar_images)
  have h4: "loaded_frame example_avatar (if False then ''east'' else ''east'') 1 =
     Some \<lparr>src = ''e1'', status = Loaded\<rparr>"
    by (simp add: example_avatar_frames)
  have h5: "transform (current new_context) = identity"
    by (simp add: new_context_def default_drawing_state_def)
  have "draw example_avatar new_context 100 75 ''north'' 0 False = new_context"
    using draw_missing_or_present [where av = example_avatar and isWest = False
        and dir = "''north''" and i = 0 and c = new_context and x = 100 and y = 75,
        THEN conjunct1]
    by (simp add: example_avatar_images)
  moreover have "draw example_avatar new_context 100 75 ''south'' 0 False = new_context"
    using draw_missing_or_present [where av = example_avatar and isWest = False
        and dir = "''south''" and i = 0 and c = new_context and x = 100 and y = 75,
        THEN conjunct1]
    by (simp add: example_avatar_images)
  moreover have "draw example_avatar new_context 100 75 ''west'' 0 True = new_context"
    using draw_missing_or_present [where av = example_avatar and isWest = True
        and dir = "''west''" and i = 0 and c = new_context and x = 100 and y = 75,
        THEN conjunct1]
    by (simp add: example_avatar_images)
  moreover have "bounding_box (last (calls (draw example_avatar new_context 100 75 ''east'' 1 False))) =
     (100 - 16, 75 - 16, 100 + 16, 75 + 16)"
    using draw_missing_or_present [where av = example_avatar and isWest = False
        and dir = "''east''" and i = 1 and c = new_context and x = 100 and y = 75
        and frame = "\<lparr>src = ''e1'', status = Loaded\<rparr>", THEN conjunct2] h4 h5
    by blast
  ultimately show ?thesis
    using h1 h2 h3 h4 h5 by simp
qed

end

